theory Spec2Isabelle
  imports Complex_Main "HOL-Library.Word" "HOL-Library.Signed_Division"
begin

section \<open>FleetGuardian: data model\<close>

text \<open>
  The development follows \<^verbatim>\<open>FleetGuardian_Main-Shayan_Shome.c\<close>.

  C's \<^verbatim>\<open>int\<close> is a 32-bit word read in two's complement (\<open>sint\<close>); a signed overflow,
  which the C standard leaves undefined, wraps around as it does on the usual hardware.
  Comparisons of \<^verbatim>\<open>int\<close>s are the signed ones (\<open><s\<close>, \<open>\<le>s\<close>); \<^verbatim>\<open>/\<close> and \<^verbatim>\<open>%\<close>
  truncate towards zero (\<open>sdiv\<close>, \<open>smod\<close> on the signed values).
\<close>

type_synonym cint = "32 word"

definition c_div :: "cint \<Rightarrow> cint \<Rightarrow> cint" where
  "c_div a b = word_of_int (sint a sdiv sint b)"

definition c_mod :: "cint \<Rightarrow> cint \<Rightarrow> cint" where
  "c_mod a b = word_of_int (sint a smod sint b)"

subsection \<open>Single-precision floating point\<close>

text \<open>
  C's \<^verbatim>\<open>float\<close> is IEEE 754 binary32, every operation rounded to nearest, ties to even
  (\<^verbatim>\<open>FLT_EVAL_METHOD\<close> 0). A finite value is the rational number it denotes; the two
  zeros, which compare equal in C, are one value here. \<open>fl_round\<close> rounds an exact
  result to binary32: with \<open>s = \<bar>x\<bar> * 2^149\<close> (so the subnormal quantum is 1), the
  quantum of the binade of \<open>s\<close> is the power of two \<open>fl_quantum \<lfloor>s\<rfloor>\<close> that leaves
  the 24 bits of the significand (at least 1), \<open>fl_mag s\<close> is the multiple of the quantum
  nearest to \<open>s\<close>, and the result overflows to an infinity from \<open>2^128\<close> on.
\<close>

datatype float = Finite rat | PInf | NInf | NaN

definition round_half_even :: "rat \<Rightarrow> int" where
  "round_half_even r =
     (let f = \<lfloor>r\<rfloor>; d = r - of_int f
      in if d < 1 / 2 then f else if 1 / 2 < d then f + 1
         else if even f then f else f + 1)"

function fl_quantum :: "int \<Rightarrow> int" where
  "fl_quantum n = (if n < 2 ^ 24 then 1 else 2 * fl_quantum (n div 2))"
  by pat_completeness auto
termination
  by (relation "measure nat") auto

declare fl_quantum.simps [simp del]

definition fl_mag :: "rat \<Rightarrow> rat" where
  "fl_mag s =
     (let q = of_int (fl_quantum \<lfloor>s\<rfloor>)
      in of_int (round_half_even (s / q)) * q)"

definition fl_round :: "rat \<Rightarrow> float" where
  "fl_round x =
     (let v = fl_mag (\<bar>x\<bar> * 2 ^ 149)
      in if (2::rat) ^ 277 \<le> v then (if x < 0 then NInf else PInf)
         else Finite (sgn x * v / 2 ^ 149))"

text \<open>The rationals that are binary32 values: those that rounding leaves as they are.\<close>

definition is_binary32 :: "rat \<Rightarrow> bool" where
  "is_binary32 x = (fl_round x = Finite x)"

fun fneg :: "float \<Rightarrow> float" where
  "fneg (Finite a) = Finite (- a)"
| "fneg PInf = NInf"
| "fneg NInf = PInf"
| "fneg NaN = NaN"

fun fadd :: "float \<Rightarrow> float \<Rightarrow> float" where
  "fadd (Finite a) (Finite b) = fl_round (a + b)"
| "fadd NaN y = NaN"
| "fadd x NaN = NaN"
| "fadd PInf NInf = NaN"
| "fadd NInf PInf = NaN"
| "fadd PInf y = PInf"
| "fadd x PInf = PInf"
| "fadd NInf y = NInf"
| "fadd x NInf = NInf"

definition fsub :: "float \<Rightarrow> float \<Rightarrow> float" where
  "fsub x y = fadd x (fneg y)"

text \<open>The sign of an infinite or zero operand, as far as the model has it (a zero is positive).\<close>

fun fsign :: "float \<Rightarrow> rat" where
  "fsign (Finite a) = (if a < 0 then - 1 else 1)"
| "fsign PInf = 1"
| "fsign NInf = - 1"
| "fsign NaN = 1"

definition finf :: "rat \<Rightarrow> float" where
  "finf sg = (if sg < 0 then NInf else PInf)"

fun fmul :: "float \<Rightarrow> float \<Rightarrow> float" where
  "fmul (Finite a) (Finite b) = fl_round (a * b)"
| "fmul NaN y = NaN"
| "fmul x NaN = NaN"
| "fmul (Finite a) y = (if a = 0 then NaN else finf (fsign (Finite a) * fsign y))"
| "fmul x (Finite b) = (if b = 0 then NaN else finf (fsign x * fsign (Finite b)))"
| "fmul x y = finf (fsign x * fsign y)"

fun fdiv :: "float \<Rightarrow> float \<Rightarrow> float" where
  "fdiv (Finite a) (Finite b) =
     (if b = 0 then (if a = 0 then NaN else finf (fsign (Finite a))) else fl_round (a / b))"
| "fdiv NaN y = NaN"
| "fdiv x NaN = NaN"
| "fdiv (Finite a) y = Finite 0"
| "fdiv x (Finite b) = finf (fsign x * fsign (Finite b))"
| "fdiv x y = NaN"

text \<open>Comparisons: a NaN compares false with everything.\<close>

fun flt :: "float \<Rightarrow> float \<Rightarrow> bool" where
  "flt (Finite a) (Finite b) = (a < b)"
| "flt NaN y = False"
| "flt x NaN = False"
| "flt x NInf = False"
| "flt PInf y = False"
| "flt NInf y = True"
| "flt x PInf = True"

fun fle :: "float \<Rightarrow> float \<Rightarrow> bool" where
  "fle (Finite a) (Finite b) = (a \<le> b)"
| "fle NaN y = False"
| "fle x NaN = False"
| "fle NInf y = True"
| "fle x PInf = True"
| "fle x NInf = False"
| "fle PInf y = False"

definition fgt :: "float \<Rightarrow> float \<Rightarrow> bool" where
  "fgt x y = flt y x"

definition fge :: "float \<Rightarrow> float \<Rightarrow> bool" where
  "fge x y = fle y x"

text \<open>The conversion of an \<^verbatim>\<open>int\<close> to \<^verbatim>\<open>float\<close> (the usual arithmetic conversions).\<close>

definition float_of_int :: "cint \<Rightarrow> float" where
  "float_of_int i = fl_round (of_int (sint i))"

text \<open>
  The cast \<^verbatim>\<open>(int)x\<close> truncates towards zero. Where the truncated value does not fit an
  \<^verbatim>\<open>int\<close> (or \<open>x\<close> is infinite or a NaN) C leaves the result undefined; the model takes
  what the cast yields there from the parameter \<open>ub\<close>, so that a theorem holds whatever
  the hardware gives.
\<close>

definition rat_truncate :: "rat \<Rightarrow> int" where
  "rat_truncate r = (if r < 0 then - \<lfloor>- r\<rfloor> else \<lfloor>r\<rfloor>)"

fun float_to_int :: "(float \<Rightarrow> cint) \<Rightarrow> float \<Rightarrow> cint" where
  "float_to_int ub (Finite r) =
     (let t = rat_truncate r
      in if - (2 ^ 31) \<le> t \<and> t < 2 ^ 31 then word_of_int t else ub (Finite r))"
| "float_to_int ub x = ub x"

subsection \<open>Status, dates and the bus record\<close>

text \<open>A C \<^verbatim>\<open>enum\<close> is an \<^verbatim>\<open>int\<close>: the loader stores any integer of the file in it.\<close>

type_synonym Status = cint

definition STATUS_OK :: Status where "STATUS_OK = 0"
definition STATUS_DUE_SOON :: Status where "STATUS_DUE_SOON = 1"
definition STATUS_OVERDUE :: Status where "STATUS_OVERDUE = 2"

definition DUE_SOON_KM :: cint where "DUE_SOON_KM = 500"

record Date =
  day :: cint
  month :: cint
  year :: cint

record Bus =
  bus_code :: string
  driver_name :: string
  bus_no :: cint
  last_service :: Date
  next_due :: Date
  current_mileage :: float
  last_service_mileage :: float
  service_interval_km :: float
  service_interval_days :: cint
  service_history_count :: cint
  status :: Status
  km_left :: float
  health_score :: cint
  avg_daily_km :: float
  fuel_efficiency :: float

section \<open>Date helpers\<close>

definition is_valid_date :: "Date \<Rightarrow> bool" where
  "is_valid_date d =
     (if year d \<le>s 0 \<or> month d <s 1 \<or> 12 <s month d \<or> day d <s 1 \<or> 31 <s day d
      then False else True)"

definition date_to_days :: "Date \<Rightarrow> cint" where
  "date_to_days d = year d * 365 + month d * 30 + day d"

text \<open>
  The same sum over the integers: what \<^verbatim>\<open>date_to_days\<close> returns as long as it fits an
  \<^verbatim>\<open>int\<close>, that is, below \<open>2^31\<close> (for a valid date: up to the year 5883515).
\<close>

definition day_count :: "Date \<Rightarrow> int" where
  "day_count d = sint (year d) * 365 + sint (month d) * 30 + sint (day d)"

definition days_to_date :: "cint \<Rightarrow> Date" where
  "days_to_date tot =
     (let r = c_mod tot 365;
          m = c_div r 30;
          dd = c_mod r 30
      in \<lparr>day = (if dd = 0 then 1 else dd),
          month = (if m = 0 then 1 else m),
          year = c_div tot 365\<rparr>)"

definition add_days :: "Date \<Rightarrow> cint \<Rightarrow> Date" where
  "add_days d days = days_to_date (date_to_days d + days)"

section \<open>Maintenance logic\<close>

definition update_maintenance_status :: "(float \<Rightarrow> cint) \<Rightarrow> Bus \<Rightarrow> Date \<Rightarrow> Bus" where
  "update_maintenance_status ub b0 today =
     (let due_mileage = fadd (last_service_mileage b0) (service_interval_km b0);
          b1 = b0\<lparr>km_left := fsub due_mileage (current_mileage b0)\<rparr>;
          mileage_overdue = fge (current_mileage b1) due_mileage;
          mileage_due_soon = (\<not> mileage_overdue \<and> fle (km_left b1) (float_of_int DUE_SOON_KM));
          dated = (0 <s service_interval_days b1 \<and> is_valid_date (last_service b1)
                   \<and> is_valid_date today);
          days_since = date_to_days today - date_to_days (last_service b1);
          date_overdue = (dated \<and> service_interval_days b1 \<le>s days_since);
          b2 = (if dated
                then b1\<lparr>next_due := add_days (last_service b1) (service_interval_days b1)\<rparr>
                else b1\<lparr>next_due := \<lparr>day = 0, month = 0, year = 0\<rparr>\<rparr>);
          b3 = b2\<lparr>status := (if mileage_overdue \<or> date_overdue then STATUS_OVERDUE
                              else if mileage_due_soon then STATUS_DUE_SOON
                              else STATUS_OK)\<rparr>;
          used = fsub (current_mileage b3) (last_service_mileage b3)
      in if fgt (service_interval_km b3) (Finite 0)
         then let ratio0 = fdiv used (service_interval_km b3);
                  ratio1 = (if flt ratio0 (Finite 0) then Finite 0 else ratio0);
                  ratio = (if fgt ratio1 (Finite (3 / 2)) then Finite (3 / 2) else ratio1);
                  h0 = float_to_int ub
                         (fmul (fdiv (fsub (Finite (3 / 2)) ratio) (Finite (3 / 2))) (Finite 100));
                  h1 = (if h0 <s 0 then 0 else h0);
                  h2 = (if 100 <s h1 then 100 else h1)
              in b3\<lparr>health_score := h2\<rparr>
         else b3\<lparr>health_score := 50\<rparr>)"

section \<open>Characters and strings\<close>

text \<open>
  A C string is the list of its characters before the terminating NUL. The character
  classes are those of the C locale, in which the program runs.
\<close>

definition isspace :: "char \<Rightarrow> bool" where
  "isspace c = (c \<in> set [CHR '' '', CHR 0x09, CHR 0x0A, CHR 0x0B, CHR 0x0C, CHR 0x0D])"

definition isdigit :: "char \<Rightarrow> bool" where
  "isdigit c = (48 \<le> (of_char c :: nat) \<and> (of_char c :: nat) \<le> 57)"

definition tolower :: "char \<Rightarrow> char" where
  "tolower c =
     (if 65 \<le> (of_char c :: nat) \<and> (of_char c :: nat) \<le> 90
      then char_of ((of_char c :: nat) + 32) else c)"

definition toupper :: "char \<Rightarrow> char" where
  "toupper c =
     (if 97 \<le> (of_char c :: nat) \<and> (of_char c :: nat) \<le> 122
      then char_of ((of_char c :: nat) - 32) else c)"

fun str_ieq :: "string \<Rightarrow> string \<Rightarrow> bool" where
  "str_ieq (ca # a) (cb # b) = (if tolower ca \<noteq> tolower cb then False else str_ieq a b)"
| "str_ieq a b = (a = [] \<and> b = [])"

definition to_upper_str :: "string \<Rightarrow> string" where
  "to_upper_str s = map toupper s"

text \<open>What a \<^verbatim>\<open>char\<close> buffer holds as a C string: the characters before the first NUL.\<close>

definition c_str :: "string \<Rightarrow> string" where
  "c_str buf = takeWhile (\<lambda>c. c \<noteq> CHR 0x00) buf"

text \<open>\<^verbatim>\<open>strncpy(dest, src, n); dest[n] = '\0'\<close>: the first \<open>n\<close> characters.\<close>

definition strncpy :: "string \<Rightarrow> nat \<Rightarrow> string" where
  "strncpy src n = take n src"

section \<open>Number syntax of the C library\<close>

text \<open>
  \<^verbatim>\<open>strtol\<close>, \<^verbatim>\<open>strtof\<close> and the \<^verbatim>\<open>%d\<close>, \<^verbatim>\<open>%f\<close> directives of \<^verbatim>\<open>scanf\<close>, for decimal
  input: leading white space, an optional sign, digits; for a float an optional fraction
  and exponent, or \<^verbatim>\<open>inf\<close>, \<^verbatim>\<open>infinity\<close>, \<^verbatim>\<open>nan\<close> in any case. Hexadecimal floats and the
  \<^verbatim>\<open>nan(...)\<close> payload are not modelled. A \<^verbatim>\<open>long\<close> has 64 bits and \<^verbatim>\<open>strtol\<close> saturates;
  \<^verbatim>\<open>%d\<close> stores the \<^verbatim>\<open>long\<close> it read truncated to \<^verbatim>\<open>int\<close>, as glibc does. Decimal to float
  conversion is correctly rounded.
\<close>

definition scan_sign :: "string \<Rightarrow> bool \<times> string" where
  "scan_sign s =
     (case s of
        [] \<Rightarrow> (False, s)
      | c # r \<Rightarrow> if c = CHR ''-'' then (True, r) else if c = CHR ''+'' then (False, r)
                 else (False, s))"

fun digits_val :: "int \<Rightarrow> string \<Rightarrow> int" where
  "digits_val acc [] = acc"
| "digits_val acc (c # cs) = digits_val (acc * 10 + (int (of_char c) - 48)) cs"

definition clamp_long :: "int \<Rightarrow> int" where
  "clamp_long v = max (- (2 ^ 63)) (min (2 ^ 63 - 1) v)"

definition strtol :: "string \<Rightarrow> int \<times> string" where
  "strtol s =
     (let (neg, s2) = scan_sign (dropWhile isspace s);
          ds = takeWhile isdigit s2
      in if ds = [] then (0, s)
         else (clamp_long (if neg then - digits_val 0 ds else digits_val 0 ds),
               dropWhile isdigit s2))"

definition pow10 :: "int \<Rightarrow> rat" where
  "pow10 e = (if 0 \<le> e then 10 ^ nat e else 1 / 10 ^ nat (- e))"

definition scan_exponent :: "string \<Rightarrow> int \<times> string" where
  "scan_exponent s =
     (case s of
        [] \<Rightarrow> (0, s)
      | c # r \<Rightarrow>
          if c = CHR ''e'' \<or> c = CHR ''E''
          then (let (neg, r1) = scan_sign r;
                    ds = takeWhile isdigit r1
                in if ds = [] then (0, s)
                   else (if neg then - digits_val 0 ds else digits_val 0 ds,
                         dropWhile isdigit r1))
          else (0, s))"

text \<open>
  The exponent as \<^verbatim>\<open>%f\<close> reads it: the directive consumes every character that can
  continue a number, so an exponent letter after the mantissa is consumed, and a sign after
  it, also when no digit follows; the value is then that of the mantissa.
\<close>

definition scanf_exponent :: "string \<Rightarrow> int \<times> string" where
  "scanf_exponent s =
     (case s of
        [] \<Rightarrow> (0, s)
      | c # r \<Rightarrow>
          if c = CHR ''e'' \<or> c = CHR ''E''
          then (let (neg, r1) = scan_sign r;
                    ds = takeWhile isdigit r1
                in (if ds = [] then 0
                    else if neg then - digits_val 0 ds else digits_val 0 ds,
                    dropWhile isdigit r1))
          else (0, s))"

definition scan_decimal ::
  "(string \<Rightarrow> int \<times> string) \<Rightarrow> string \<Rightarrow> (rat \<times> string) option" where
  "scan_decimal exponent s =
     (let ip = takeWhile isdigit s;
          s1 = dropWhile isdigit s;
          (fp, s2) = (case s1 of
                        [] \<Rightarrow> ([], s1)
                      | c # r \<Rightarrow> if c = CHR ''.''
                                 then (takeWhile isdigit r, dropWhile isdigit r)
                                 else ([], s1))
      in if ip = [] \<and> fp = [] then None
         else (let (e, s3) = exponent s2
               in Some (of_int (digits_val 0 (ip @ fp)) * pow10 (e - int (length fp)), s3)))"

definition scan_special :: "string \<Rightarrow> (float \<times> string) option" where
  "scan_special s =
     (if map tolower (take 8 s) = ''infinity'' then Some (PInf, drop 8 s)
      else if map tolower (take 3 s) = ''inf'' then Some (PInf, drop 3 s)
      else if map tolower (take 3 s) = ''nan'' then Some (NaN, drop 3 s)
      else None)"

definition strtof :: "string \<Rightarrow> float \<times> string" where
  "strtof s =
     (let (neg, s1) = scan_sign (dropWhile isspace s)
      in case scan_special s1 of
           Some (v, r) \<Rightarrow> (if neg then fneg v else v, r)
         | None \<Rightarrow>
             (case scan_decimal scan_exponent s1 of
                None \<Rightarrow> (Finite 0, s)
              | Some (q, r) \<Rightarrow> (fl_round (if neg then - q else q), r)))"

text \<open>
  The directives of \<^verbatim>\<open>scanf\<close>: a failed conversion leaves the stream after the characters
  it consumed (white space and a sign).
\<close>

definition scan_int :: "string \<Rightarrow> cint option \<times> string" where
  "scan_int s =
     (let (neg, s2) = scan_sign (dropWhile isspace s);
          ds = takeWhile isdigit s2
      in if ds = [] then (None, s2)
         else (Some (word_of_int (clamp_long (if neg then - digits_val 0 ds
                                              else digits_val 0 ds))),
               dropWhile isdigit s2))"

definition scan_float :: "string \<Rightarrow> float option \<times> string" where
  "scan_float s =
     (let (neg, s1) = scan_sign (dropWhile isspace s)
      in case scan_special s1 of
           Some (v, r) \<Rightarrow> (Some (if neg then fneg v else v), r)
         | None \<Rightarrow>
             (case scan_decimal scanf_exponent s1 of
                None \<Rightarrow> (None, s1)
              | Some (q, r) \<Rightarrow> (Some (fl_round (if neg then - q else q)), r)))"

text \<open>
  A format is a list of directives: \<open>D_not_bar n\<close> is \<^verbatim>\<open>%n[^|]\<close> (at most \<open>n\<close> characters
  other than \<^verbatim>\<open>|\<close>, at least one), \<open>D_lit c\<close> a literal character, \<open>D_ws\<close> white space in
  the format (skips any white space), \<open>D_int\<close> is \<^verbatim>\<open>%d\<close> and \<open>D_float\<close> is \<^verbatim>\<open>%f\<close>. \<open>scanf\<close>
  stops at the first directive that fails and returns the values converted so far (their
  number is what the C function returns, or \<^verbatim>\<open>EOF\<close> when there is none at the end of input)
  with the rest of the stream.
\<close>

datatype directive = D_not_bar nat | D_lit char | D_int | D_float | D_ws

datatype scanned = S_str string | S_int cint | S_float float

fun scanf :: "directive list \<Rightarrow> string \<Rightarrow> scanned list \<times> string" where
  "scanf [] inp = ([], inp)"
| "scanf (D_ws # ds) inp = scanf ds (dropWhile isspace inp)"
| "scanf (D_lit c # ds) inp =
     (case inp of
        [] \<Rightarrow> ([], inp)
      | x # r \<Rightarrow> if x = c then scanf ds r else ([], inp))"
| "scanf (D_not_bar n # ds) inp =
     (let s = takeWhile (\<lambda>c. c \<noteq> CHR ''|'') (take n inp)
      in if s = [] then ([], inp)
         else (let (vs, r) = scanf ds (drop (length s) inp) in (S_str s # vs, r)))"
| "scanf (D_int # ds) inp =
     (case scan_int inp of
        (None, r) \<Rightarrow> ([], r)
      | (Some v, r) \<Rightarrow> (let (vs, r') = scanf ds r in (S_int v # vs, r')))"
| "scanf (D_float # ds) inp =
     (case scan_float inp of
        (None, r) \<Rightarrow> ([], r)
      | (Some v, r) \<Rightarrow> (let (vs, r') = scanf ds r in (S_float v # vs, r')))"

fun str_of :: "scanned \<Rightarrow> string" where
  "str_of (S_str s) = c_str s"
| "str_of v = []"

fun int_of :: "scanned \<Rightarrow> cint" where
  "int_of (S_int i) = i"
| "int_of v = 0"

fun float_of :: "scanned \<Rightarrow> float" where
  "float_of (S_float x) = x"
| "float_of v = Finite 0"

text \<open>
  The conversions of \<^verbatim>\<open>printf\<close>: \<^verbatim>\<open>%d\<close> and \<^verbatim>\<open>%.2f\<close> (exact, ties to even, as glibc).
  The float model has one zero and one NaN, so \<open>show_float2\<close> prints \<^verbatim>\<open>0.00\<close> and \<^verbatim>\<open>nan\<close>
  also where the program, for a negative zero or a NaN with the sign bit set, prints
  \<^verbatim>\<open>-0.00\<close> and \<^verbatim>\<open>-nan\<close>.
\<close>

definition digit_char :: "int \<Rightarrow> char" where
  "digit_char d = char_of (48 + nat d)"

function show_digits :: "int \<Rightarrow> string" where
  "show_digits n = (if n < 10 then [digit_char n] else show_digits (n div 10) @ [digit_char (n mod 10)])"
  by pat_completeness auto
termination
  by (relation "measure nat") auto

declare show_digits.simps [simp del]

definition show_int :: "int \<Rightarrow> string" where
  "show_int i = (if i < 0 then CHR ''-'' # show_digits (- i) else show_digits i)"

definition show_float2 :: "float \<Rightarrow> string" where
  "show_float2 x =
     (case x of
        Finite r \<Rightarrow>
          (let h = round_half_even (\<bar>r\<bar> * 100)
           in (if r < 0 then ''-'' else []) @ show_digits (h div 100) @ ''.'' @
              [digit_char (h mod 100 div 10), digit_char (h mod 10)])
      | PInf \<Rightarrow> ''inf''
      | NInf \<Rightarrow> ''-inf''
      | NaN \<Rightarrow> ''nan'')"

section \<open>Console input\<close>

text \<open>
  Standard input is the string of the characters still to be read; it is at end of file
  when empty. The messages the program prints are recorded as values of \<open>message\<close>, one
  for each \<^verbatim>\<open>printf\<close> that reports an outcome (prompts and tables are not recorded).

  A function that reads the console returns its result, the rest of the input and the
  messages printed. Each prompt loop of the program repeats until a line is accepted; at
  end of file \<^verbatim>\<open>fgets\<close> fails every time and the loop never ends: the function does not
  return, which is the value \<open>None\<close>.
\<close>

datatype message =
    InputEmpty          \<comment> \<open>Input cannot be empty.\<close>
  | InvalidDigits       \<comment> \<open>Invalid input. Please enter digits only.\<close>
  | InvalidNumeric      \<comment> \<open>Invalid input. Please enter a numeric value.\<close>
  | OutOfRange          \<comment> \<open>Please enter a value between ... and ...\<close>
  | NameEmpty           \<comment> \<open>Name cannot be empty.\<close>
  | NameOnlyNumbers     \<comment> \<open>Name cannot be only numbers. Please enter a proper name.\<close>
  | InvalidDate         \<comment> \<open>Invalid date. Use format dd/mm/yyyy with valid values.\<close>
  | CodeEmpty           \<comment> \<open>Code cannot be empty.\<close>
  | DuplicateCode       \<comment> \<open>This bus code already exists (case-insensitive). ...\<close>
  | DuplicateNumber     \<comment> \<open>This bus number already exists. ...\<close>
  | AllocFailedAdd      \<comment> \<open>Memory allocation failed while adding bus.\<close>
  | BusAdded nat        \<comment> \<open>Bus added. Total buses: ...\<close>
  | BusNotFound         \<comment> \<open>Bus not found.\<close>
  | BusDeleted nat      \<comment> \<open>Bus deleted. Remaining: ...\<close>
  | SaveOpenError       \<comment> \<open>Error opening file for writing.\<close>
  | FleetSaved          \<comment> \<open>Fleet saved to ...\<close>
  | DataFileInvalid     \<comment> \<open>Data file empty or invalid.\<close>
  | AllocFailedLoad     \<comment> \<open>Memory allocation failed while loading file.\<close>
  | CorruptedLine       \<comment> \<open>Warning: corrupted line in data file.\<close>
  | FleetLoaded nat     \<comment> \<open>Loaded ... buses from ...\<close>

type_synonym 'a console = "('a \<times> string \<times> message list) option"

definition say :: "message \<Rightarrow> 'a console \<Rightarrow> 'a console" where
  "say m r = map_option (\<lambda>(v, inp, ms). (v, inp, m # ms)) r"

text \<open>
  \<^verbatim>\<open>fgets(buf, size, stdin)\<close>: at most \<open>size - 1\<close> characters, up to and including the
  first newline; it fails at end of file.
\<close>

fun fgets_chars :: "nat \<Rightarrow> string \<Rightarrow> string \<times> string" where
  "fgets_chars 0 inp = ([], inp)"
| "fgets_chars (Suc n) [] = ([], [])"
| "fgets_chars (Suc n) (c # inp) =
     (if c = CHR 0x0A then ([c], inp)
      else (let (l, r) = fgets_chars n inp in (c # l, r)))"

definition fgets :: "nat \<Rightarrow> string \<Rightarrow> (string \<times> string) option" where
  "fgets sz inp = (if inp = [] then None else Some (fgets_chars (sz - 1) inp))"

definition strip_eol :: "string \<Rightarrow> string" where
  "strip_eol buf = rev (dropWhile (\<lambda>c. c = CHR 0x0A \<or> c = CHR 0x0D) (rev buf))"

definition read_line_stdin :: "nat \<Rightarrow> string \<Rightarrow> bool \<times> string \<times> string" where
  "read_line_stdin sz inp =
     (case fgets sz inp of
        None \<Rightarrow> (False, [], inp)
      | Some (buf, inp') \<Rightarrow> (True, strip_eol (c_str buf), inp'))"

lemma fgets_chars_length:
  "fgets_chars n inp = (l, r) \<Longrightarrow> length l + length r = length inp"
  by (induction n inp arbitrary: l r rule: fgets_chars.induct)
     (auto split: if_splits prod.splits)

lemma fgets_chars_progress:
  "fgets_chars (Suc n) (c # inp) = (l, r) \<Longrightarrow> length r < Suc (length inp)"
  by (auto split: if_splits prod.splits dest: fgets_chars_length)

lemma read_line_stdin_shorter:
  assumes "read_line_stdin sz inp = (True, buf, inp')" and "1 < sz"
  shows "length inp' < length inp"
proof (cases inp)
  case Nil
  with assms(1) show ?thesis
    by (simp add: read_line_stdin_def fgets_def)
next
  case (Cons c cs)
  from assms(2) obtain n where sz: "sz = Suc (Suc n)"
    by (cases sz; cases "sz - 1") auto
  from assms(1) obtain l where "fgets_chars (Suc n) (c # cs) = (l, inp')"
    by (auto simp: read_line_stdin_def fgets_def Cons sz split: prod.splits)
  from fgets_chars_progress [OF this] show ?thesis
    by (simp add: Cons)
qed

fun is_all_digits_from :: "bool \<Rightarrow> string \<Rightarrow> bool" where
  "is_all_digits_from has_digit [] = has_digit"
| "is_all_digits_from has_digit (c # s) =
     (if \<not> isdigit c \<and> \<not> isspace c then False
      else is_all_digits_from (if isdigit c then True else has_digit) s)"

definition is_all_digits :: "string \<Rightarrow> bool" where
  "is_all_digits s = is_all_digits_from False s"

function read_int_strict :: "int \<Rightarrow> int \<Rightarrow> string \<Rightarrow> cint console" where
  "read_int_strict mn mx inp =
     (case read_line_stdin 128 inp of
        (False, buf, inp') \<Rightarrow> None
      | (True, buf, inp') \<Rightarrow>
          if buf = [] then say InputEmpty (read_int_strict mn mx inp')
          else (let (val, endptr) = strtol buf
                in if dropWhile isspace endptr \<noteq> []
                   then say InvalidDigits (read_int_strict mn mx inp')
                   else if val < mn \<or> mx < val
                   then say OutOfRange (read_int_strict mn mx inp')
                   else Some (word_of_int val, inp', [])))"
  by pat_completeness auto
termination
  by (relation "measure (\<lambda>(mn, mx, inp). length inp)")
     (auto dest: read_line_stdin_shorter [OF sym])

declare read_int_strict.simps [simp del]

function read_float_strict :: "float \<Rightarrow> float \<Rightarrow> string \<Rightarrow> float console" where
  "read_float_strict mn mx inp =
     (case read_line_stdin 128 inp of
        (False, buf, inp') \<Rightarrow> None
      | (True, buf, inp') \<Rightarrow>
          if buf = [] then say InputEmpty (read_float_strict mn mx inp')
          else (let (val, endptr) = strtof buf
                in if dropWhile isspace endptr \<noteq> []
                   then say InvalidNumeric (read_float_strict mn mx inp')
                   else if flt val mn \<or> fgt val mx
                   then say OutOfRange (read_float_strict mn mx inp')
                   else Some (val, inp', [])))"
  by pat_completeness auto
termination
  by (relation "measure (\<lambda>(mn, mx, inp). length inp)")
     (auto dest: read_line_stdin_shorter [OF sym])

declare read_float_strict.simps [simp del]

function read_driver_name :: "nat \<Rightarrow> string \<Rightarrow> string console" where
  "read_driver_name sz inp =
     (case read_line_stdin 128 inp of
        (False, buf, inp') \<Rightarrow> None
      | (True, buf, inp') \<Rightarrow>
          if buf = [] then say NameEmpty (read_driver_name sz inp')
          else if is_all_digits buf then say NameOnlyNumbers (read_driver_name sz inp')
          else Some (strncpy buf (sz - 1), inp', []))"
  by pat_completeness auto
termination
  by (relation "measure (\<lambda>(sz, inp). length inp)")
     (auto dest: read_line_stdin_shorter [OF sym])

declare read_driver_name.simps [simp del]

text \<open>\<^verbatim>\<open>sscanf(buf, "%d/%d/%d", &d.day, &d.month, &d.year) == 3 && is_valid_date(d)\<close>\<close>

definition date_format :: "directive list" where
  "date_format = [D_int, D_lit (CHR ''/''), D_int, D_lit (CHR ''/''), D_int]"

function read_date :: "string \<Rightarrow> Date console" where
  "read_date inp =
     (case read_line_stdin 128 inp of
        (False, buf, inp') \<Rightarrow> None
      | (True, buf, inp') \<Rightarrow>
          (case fst (scanf date_format buf) of
             [S_int d, S_int m, S_int y] \<Rightarrow>
               if is_valid_date \<lparr>day = d, month = m, year = y\<rparr>
               then Some (\<lparr>day = d, month = m, year = y\<rparr>, inp', [])
               else say InvalidDate (read_date inp')
           | vs \<Rightarrow> say InvalidDate (read_date inp')))"
  by pat_completeness auto
termination
  by (relation "measure length")
     (auto dest: read_line_stdin_shorter [OF sym])

declare read_date.simps [simp del]

section \<open>The record store\<close>

text \<open>
  The fleet is a heap array with a count: \<open>slots\<close> is the whole allocated array (its
  length is the capacity) and \<open>used\<close> the number of buses, the first \<open>used\<close> slots. The
  slots past \<open>used\<close> hold stale or uninitialised records. Counts and indices are natural
  numbers; an index result is an integer, \<open>-1\<close> for "none", as in the source.
\<close>

record Fleet =
  slots :: "Bus list"
  used :: nat

definition buses :: "Fleet \<Rightarrow> Bus list" where
  "buses st = take (used st) (slots st)"

function find_bus_index_from :: "Bus list \<Rightarrow> nat \<Rightarrow> cint \<Rightarrow> nat \<Rightarrow> int" where
  "find_bus_index_from fleet count no i =
     (if i < count
      then (if bus_no (fleet ! i) = no then int i
            else find_bus_index_from fleet count no (i + 1))
      else - 1)"
  by pat_completeness auto
termination
  by (relation "measure (\<lambda>(fleet, count, no, i). count - i)") auto

declare find_bus_index_from.simps [simp del]

definition find_bus_index :: "Bus list \<Rightarrow> nat \<Rightarrow> cint \<Rightarrow> int" where
  "find_bus_index fleet count no = find_bus_index_from fleet count no 0"

function bus_code_exists_from :: "Bus list \<Rightarrow> nat \<Rightarrow> string \<Rightarrow> int \<Rightarrow> nat \<Rightarrow> bool" where
  "bus_code_exists_from fleet count code exclude_index i =
     (if i < count
      then (if int i = exclude_index
            then bus_code_exists_from fleet count code exclude_index (i + 1)
            else if str_ieq (bus_code (fleet ! i)) code then True
            else bus_code_exists_from fleet count code exclude_index (i + 1))
      else False)"
  by pat_completeness auto
termination
  by (relation "measure (\<lambda>(fleet, count, code, exclude_index, i). count - i)") auto

declare bus_code_exists_from.simps [simp del]

definition bus_code_exists :: "Bus list \<Rightarrow> nat \<Rightarrow> string \<Rightarrow> int \<Rightarrow> bool" where
  "bus_code_exists fleet count code exclude_index =
     bus_code_exists_from fleet count code exclude_index 0"

function bus_no_exists_from :: "Bus list \<Rightarrow> nat \<Rightarrow> cint \<Rightarrow> int \<Rightarrow> nat \<Rightarrow> bool" where
  "bus_no_exists_from fleet count no exclude_index i =
     (if i < count
      then (if int i = exclude_index
            then bus_no_exists_from fleet count no exclude_index (i + 1)
            else if bus_no (fleet ! i) = no then True
            else bus_no_exists_from fleet count no exclude_index (i + 1))
      else False)"
  by pat_completeness auto
termination
  by (relation "measure (\<lambda>(fleet, count, no, exclude_index, i). count - i)") auto

declare bus_no_exists_from.simps [simp del]

definition bus_no_exists :: "Bus list \<Rightarrow> nat \<Rightarrow> cint \<Rightarrow> int \<Rightarrow> bool" where
  "bus_no_exists fleet count no exclude_index =
     bus_no_exists_from fleet count no exclude_index 0"

subsection \<open>Adding a bus\<close>

text \<open>The two prompt loops of \<^verbatim>\<open>add_bus\<close>: a unique code, then a unique number.\<close>

function add_bus_code :: "Bus list \<Rightarrow> nat \<Rightarrow> string \<Rightarrow> string console" where
  "add_bus_code fleet count inp =
     (case read_line_stdin 64 inp of
        (False, tmp, inp') \<Rightarrow> None
      | (True, tmp, inp') \<Rightarrow>
          if tmp = [] then say CodeEmpty (add_bus_code fleet count inp')
          else if bus_code_exists fleet count (to_upper_str tmp) (- 1)
          then say DuplicateCode (add_bus_code fleet count inp')
          else Some (strncpy (to_upper_str tmp) 19, inp', []))"
  by pat_completeness auto
termination
  by (relation "measure (\<lambda>(fleet, count, inp). length inp)")
     (auto dest: read_line_stdin_shorter [OF sym])

declare add_bus_code.simps [simp del]

lemma say_Some:
  "say m r = Some (v, inp, ms) \<Longrightarrow> \<exists>ms'. r = Some (v, inp, ms') \<and> ms = m # ms'"
  by (cases r) (auto simp: say_def)

lemma read_int_strict_shorter:
  "read_int_strict mn mx inp = Some (v, inp', ms) \<Longrightarrow> length inp' < length inp"
proof (induction "length inp" arbitrary: inp ms rule: less_induct)
  case less
  note p = less.prems [unfolded read_int_strict.simps [of mn mx inp]]
  obtain ok buf inp1 where r: "read_line_stdin 128 inp = (ok, buf, inp1)"
    by (cases "read_line_stdin 128 inp") auto
  with p have ok: "ok"
    by (cases ok) auto
  with r have short: "length inp1 < length inp"
    by (auto dest: read_line_stdin_shorter)
  obtain val endptr where st: "strtol buf = (val, endptr)"
    by (cases "strtol buf") auto
  from p r ok st
  have "(\<exists>ms'. read_int_strict mn mx inp1 = Some (v, inp', ms')) \<or> inp' = inp1"
    by (auto dest: say_Some split: if_splits)
  then show ?case
  proof
    assume "\<exists>ms'. read_int_strict mn mx inp1 = Some (v, inp', ms')"
    then obtain ms' where "read_int_strict mn mx inp1 = Some (v, inp', ms')" ..
    from less.hyps [OF short this] short show ?thesis by simp
  next
    assume "inp' = inp1"
    with short show ?thesis by simp
  qed
qed

function add_bus_no :: "Bus list \<Rightarrow> nat \<Rightarrow> string \<Rightarrow> cint console" where
  "add_bus_no fleet count inp =
     (case read_int_strict 1 9999999 inp of
        None \<Rightarrow> None
      | Some (no, inp', ms) \<Rightarrow>
          if bus_no_exists fleet count no (- 1)
          then map_option (\<lambda>(v, i, ms'). (v, i, ms @ DuplicateNumber # ms'))
                 (add_bus_no fleet count inp')
          else Some (no, inp', ms))"
  by pat_completeness auto

termination
  by (relation "measure (\<lambda>(fleet, count, inp). length inp)")
     (auto dest: read_int_strict_shorter)

declare add_bus_no.simps [simp del]

text \<open>
  \<^verbatim>\<open>add_bus\<close>. \<open>alloc_ok\<close> says whether \<^verbatim>\<open>realloc\<close> succeeds when the array must grow, and
  \<open>uninit\<close> is what the new slots hold. The fields are written into the slot
  \<open>fleet[count]\<close>, which is counted in at the end: \<open>add_bus_details\<close> is the part of the
  function after the two uniqueness loops, on the slot \<open>b\<close>, and \<open>add_bus_fields\<close> the
  part after the capacity check.
\<close>

definition grow :: "Bus \<Rightarrow> Fleet \<Rightarrow> Fleet" where
  "grow uninit st =
     (let capacity = length (slots st);
          new_cap = (if capacity = 0 then 4 else capacity * 2)
      in st\<lparr>slots := slots st @ replicate (new_cap - capacity) uninit\<rparr>)"

definition add_bus_details :: "Bus \<Rightarrow> string \<Rightarrow> Bus console" where
  "add_bus_details b inp =
     (case read_driver_name 50 inp of None \<Rightarrow> None
      | Some (name, inp3, m3) \<Rightarrow>
     (case read_date inp3 of None \<Rightarrow> None
      | Some (ls, inp4, m4) \<Rightarrow>
     (case read_float_strict (Finite 0) (Finite 100) inp4 of None \<Rightarrow> None
      | Some (lsm, inp5, m5) \<Rightarrow>
     (case read_float_strict (Finite 0) (Finite 100) inp5 of None \<Rightarrow> None
      | Some (cm, inp6, m6) \<Rightarrow>
     (case read_float_strict (Finite 1) (Finite 100000) inp6 of None \<Rightarrow> None
      | Some (ikm, inp7, m7) \<Rightarrow>
     (case read_int_strict 0 5000 inp7 of None \<Rightarrow> None
      | Some (idays, inp8, m8) \<Rightarrow>
     (case read_float_strict (Finite 0) (Finite 100000) inp8 of None \<Rightarrow> None
      | Some (adk, inp9, m9) \<Rightarrow>
     (case read_float_strict (Finite 0) (Finite 200) inp9 of None \<Rightarrow> None
      | Some (fe, inp10, m10) \<Rightarrow>
     (case read_int_strict 0 1500 inp10 of None \<Rightarrow> None
      | Some (hist, inp11, m11) \<Rightarrow>
          Some (b\<lparr>driver_name := name, last_service := ls,
                  last_service_mileage := lsm, current_mileage := cm,
                  service_interval_km := ikm, service_interval_days := idays,
                  avg_daily_km := adk, fuel_efficiency := fe,
                  service_history_count := hist,
                  next_due := \<lparr>day = 0, month = 0, year = 0\<rparr>,
                  km_left := Finite 0, status := STATUS_OK, health_score := 100\<rparr>,
                inp11, m3 @ m4 @ m5 @ m6 @ m7 @ m8 @ m9 @ m10 @ m11))))))))))"

definition add_bus_fields :: "Fleet \<Rightarrow> string \<Rightarrow> Fleet console" where
  "add_bus_fields st inp =
     (case add_bus_code (slots st) (used st) inp of None \<Rightarrow> None
      | Some (code, inp1, m1) \<Rightarrow>
     (case add_bus_no (slots st) (used st) inp1 of None \<Rightarrow> None
      | Some (no, inp2, m2) \<Rightarrow>
     (case add_bus_details ((slots st ! used st)\<lparr>bus_code := code, bus_no := no\<rparr>) inp2 of
        None \<Rightarrow> None
      | Some (b, inp3, m3) \<Rightarrow>
          Some (\<lparr>slots = (slots st)[used st := b], used = used st + 1\<rparr>, inp3,
                m1 @ m2 @ m3 @ [BusAdded (used st + 1)]))))"

definition add_bus :: "bool \<Rightarrow> Bus \<Rightarrow> Fleet \<Rightarrow> string \<Rightarrow> Fleet console" where
  "add_bus alloc_ok uninit st inp =
     (if length (slots st) \<le> used st
      then (if \<not> alloc_ok then Some (st, inp, [AllocFailedAdd])
            else add_bus_fields (grow uninit st) inp)
      else add_bus_fields st inp)"

subsection \<open>Deleting a bus\<close>

function shift_left :: "Bus list \<Rightarrow> nat \<Rightarrow> nat \<Rightarrow> Bus list" where
  "shift_left fleet count i =
     (if int i < int count - 1
      then shift_left (fleet[i := fleet ! (i + 1)]) count (i + 1)
      else fleet)"
  by pat_completeness auto
termination
  by (relation "measure (\<lambda>(fleet, count, i). count - i)") auto

declare shift_left.simps [simp del]

definition delete_bus :: "Fleet \<Rightarrow> string \<Rightarrow> Fleet console" where
  "delete_bus st inp =
     (case read_int_strict 1 9999999 inp of
        None \<Rightarrow> None
      | Some (no, inp', ms) \<Rightarrow>
          (let idx = find_bus_index (slots st) (used st) no
           in if idx = - 1 then Some (st, inp', ms @ [BusNotFound])
              else Some (\<lparr>slots = shift_left (slots st) (used st) (nat idx),
                          used = used st - 1\<rparr>,
                         inp', ms @ [BusDeleted (used st - 1)])))"

section \<open>The data file\<close>

text \<open>
  A file is the string of its characters, or \<open>None\<close> when it cannot be opened.
  \<^verbatim>\<open>save_fleet_to_file\<close> writes the count and one line for each bus; \<open>writable\<close> says
  whether the file opens for writing.
\<close>

definition format_bus :: "Bus \<Rightarrow> string" where
  "format_bus b =
     bus_code b @ ''|'' @ driver_name b @ ''|'' @ show_int (sint (bus_no b)) @ ''|'' @
     show_int (sint (day (last_service b))) @ ''|'' @
     show_int (sint (month (last_service b))) @ ''|'' @
     show_int (sint (year (last_service b))) @ ''|'' @
     show_int (sint (day (next_due b))) @ ''|'' @
     show_int (sint (month (next_due b))) @ ''|'' @
     show_int (sint (year (next_due b))) @ ''|'' @
     show_float2 (current_mileage b) @ ''|'' @
     show_float2 (last_service_mileage b) @ ''|'' @
     show_float2 (service_interval_km b) @ ''|'' @
     show_int (sint (service_interval_days b)) @ ''|'' @
     show_int (sint (service_history_count b)) @ ''|'' @
     show_int (sint (status b)) @ ''|'' @
     show_float2 (km_left b) @ ''|'' @
     show_int (sint (health_score b)) @ ''|'' @
     show_float2 (avg_daily_km b) @ ''|'' @
     show_float2 (fuel_efficiency b) @ [CHR 0x0A]"

definition save_fleet_to_file ::
  "Bus list \<Rightarrow> nat \<Rightarrow> bool \<Rightarrow> string option \<Rightarrow> string option \<times> message list" where
  "save_fleet_to_file fleet count writable file =
     (if \<not> writable then (file, [SaveOpenError])
      else (Some (show_int (int count) @ [CHR 0x0A] @ concat (map format_bus (take count fleet))),
            [FleetSaved]))"

text \<open>
  The format of a record line,
  \<^verbatim>\<open>"%19[^|]|%49[^|]|%d|%d|%d|%d|%d|%d|%d|%f|%f|%f|%d|%d|%d|%f|%d|%f|%f\n"\<close>,
  and the targets of its nineteen conversions, in order: the fields of the slot, but for
  the fifteenth, which is the local \<^verbatim>\<open>status_int\<close>.
\<close>

definition bar :: directive where
  "bar = D_lit (CHR ''|'')"

definition bus_format :: "directive list" where
  "bus_format =
     [D_not_bar 19, bar, D_not_bar 49, bar, D_int, bar,
      D_int, bar, D_int, bar, D_int, bar,
      D_int, bar, D_int, bar, D_int, bar,
      D_float, bar, D_float, bar, D_float, bar,
      D_int, bar, D_int, bar, D_int, bar,
      D_float, bar, D_int, bar, D_float, bar, D_float, D_ws]"

definition bus_targets :: "(scanned \<Rightarrow> Bus \<times> cint \<Rightarrow> Bus \<times> cint) list" where
  "bus_targets =
     [(\<lambda>v (b, si). (b\<lparr>bus_code := str_of v\<rparr>, si)),
      (\<lambda>v (b, si). (b\<lparr>driver_name := str_of v\<rparr>, si)),
      (\<lambda>v (b, si). (b\<lparr>bus_no := int_of v\<rparr>, si)),
      (\<lambda>v (b, si). (b\<lparr>last_service := (last_service b)\<lparr>day := int_of v\<rparr>\<rparr>, si)),
      (\<lambda>v (b, si). (b\<lparr>last_service := (last_service b)\<lparr>month := int_of v\<rparr>\<rparr>, si)),
      (\<lambda>v (b, si). (b\<lparr>last_service := (last_service b)\<lparr>year := int_of v\<rparr>\<rparr>, si)),
      (\<lambda>v (b, si). (b\<lparr>next_due := (next_due b)\<lparr>day := int_of v\<rparr>\<rparr>, si)),
      (\<lambda>v (b, si). (b\<lparr>next_due := (next_due b)\<lparr>month := int_of v\<rparr>\<rparr>, si)),
      (\<lambda>v (b, si). (b\<lparr>next_due := (next_due b)\<lparr>year := int_of v\<rparr>\<rparr>, si)),
      (\<lambda>v (b, si). (b\<lparr>current_mileage := float_of v\<rparr>, si)),
      (\<lambda>v (b, si). (b\<lparr>last_service_mileage := float_of v\<rparr>, si)),
      (\<lambda>v (b, si). (b\<lparr>service_interval_km := float_of v\<rparr>, si)),
      (\<lambda>v (b, si). (b\<lparr>service_interval_days := int_of v\<rparr>, si)),
      (\<lambda>v (b, si). (b\<lparr>service_history_count := int_of v\<rparr>, si)),
      (\<lambda>v (b, si). (b, int_of v)),
      (\<lambda>v (b, si). (b\<lparr>km_left := float_of v\<rparr>, si)),
      (\<lambda>v (b, si). (b\<lparr>health_score := int_of v\<rparr>, si)),
      (\<lambda>v (b, si). (b\<lparr>avg_daily_km := float_of v\<rparr>, si)),
      (\<lambda>v (b, si). (b\<lparr>fuel_efficiency := float_of v\<rparr>, si))]"

definition store_all :: "scanned list \<Rightarrow> Bus \<times> cint \<Rightarrow> Bus \<times> cint" where
  "store_all vs t = fold (\<lambda>(f, v) acc. f v acc) (zip bus_targets vs) t"

text \<open>
  The loop of \<^verbatim>\<open>load_fleet_from_file\<close>, from slot \<open>i\<close>. A conversion that fails leaves its
  target and the later ones as they were: the slot keeps what it held, and \<^verbatim>\<open>status_int\<close>,
  a local without initialiser, what its place on the stack held: \<open>uninit_int\<close> on entry
  to the loop, and from then on the value the previous iteration left there (C leaves it
  indeterminate; this is what the compiled program does). Whatever the scan returns, the
  status is stored and the loop goes on to the next slot from where the scan stopped.
\<close>

function load_records ::
  "cint \<Rightarrow> Bus list \<Rightarrow> nat \<Rightarrow> nat \<Rightarrow> string \<Rightarrow> Bus list \<times> message list" where
  "load_records uninit_int fleet i n inp =
     (if i < n
      then (let (vs, inp') = scanf bus_format inp;
                (b, status_int) = store_all vs (fleet ! i, uninit_int);
                warn = (if length vs \<noteq> 19 then [CorruptedLine] else []);
                (fleet', ms) = load_records status_int (fleet[i := b\<lparr>status := status_int\<rparr>])
                                 (i + 1) n inp'
            in (fleet', warn @ ms))
      else (fleet, []))"
  by pat_completeness auto
termination
  by (relation "measure (\<lambda>(uninit_int, fleet, i, n, inp). n - i)") auto

declare load_records.simps [simp del]

text \<open>
  \<^verbatim>\<open>load_fleet_from_file\<close>: the header is read with \<^verbatim>\<open>"%d\n"\<close>; \<open>alloc_ok\<close> and \<open>uninit\<close>
  are as for \<^verbatim>\<open>add_bus\<close>.
\<close>

definition load_fleet_from_file ::
  "bool \<Rightarrow> Bus \<Rightarrow> cint \<Rightarrow> Fleet \<Rightarrow> string option \<Rightarrow> Fleet \<times> message list" where
  "load_fleet_from_file alloc_ok uninit uninit_int st file =
     (case file of
        None \<Rightarrow> (st\<lparr>used := 0\<rparr>, [])
      | Some content \<Rightarrow>
          (case scanf [D_int, D_ws] content of
             ([S_int n], inp) \<Rightarrow>
               if n \<le>s 0 then (st\<lparr>used := 0\<rparr>, [DataFileInvalid])
               else if length (slots st) < nat (sint n) \<and> \<not> alloc_ok
               then (st\<lparr>used := 0\<rparr>, [AllocFailedLoad])
               else (let fleet = (if length (slots st) < nat (sint n)
                                  then slots st @ replicate (nat (sint n) - length (slots st)) uninit
                                  else slots st);
                         (fleet', ms) = load_records uninit_int fleet 0 (nat (sint n)) inp
                     in (\<lparr>slots = fleet', used = nat (sint n)\<rparr>,
                         ms @ [FleetLoaded (nat (sint n))]))
           | (vs, inp) \<Rightarrow> (st\<lparr>used := 0\<rparr>, [DataFileInvalid])))"

section \<open>Concrete inputs\<close>

text \<open>
  What the cast of an unrepresentable value yields on x86-64 (\<^verbatim>\<open>cvttss2si\<close> returns the
  "integer indefinite" \<^verbatim>\<open>0x80000000\<close>); the instance of \<open>ub\<close> the examples run with.
\<close>

definition cast_indefinite :: "float \<Rightarrow> cint" where
  "cast_indefinite x = - (2 ^ 31)"

definition ref_date :: Date where
  "ref_date = \<lparr>day = 1, month = 6, year = 2024\<rparr>"

text \<open>A reference date that \<^verbatim>\<open>read_date\<close> accepts and whose day count exceeds \<open>2^31\<close>.\<close>

definition far_date :: Date where
  "far_date = \<lparr>day = 1, month = 1, year = 6000000\<rparr>"

text \<open>The record of the specification's scenarios (bus number 7), at 9200 km.\<close>

definition scenario_bus :: Bus where
  "scenario_bus =
     \<lparr>bus_code = ''CHD-101A'', driver_name = ''Asha Rao'', bus_no = 7,
      last_service = \<lparr>day = 15, month = 1, year = 2024\<rparr>,
      next_due = \<lparr>day = 0, month = 0, year = 0\<rparr>,
      current_mileage = Finite 9200, last_service_mileage = Finite 9000,
      service_interval_km = Finite 10000, service_interval_days = 0,
      service_history_count = 3, status = STATUS_OK, km_left = Finite 0,
      health_score = 100, avg_daily_km = Finite 120, fuel_efficiency = Finite 4\<rparr>"

text \<open>
  A bus as the data file can hold it: a day interval of 30, and a last service date that
  is not a date (0/0/0), which the loader takes as it is.
\<close>

definition undated_bus :: Bus where
  "undated_bus = scenario_bus\<lparr>last_service := \<lparr>day = 0, month = 0, year = 0\<rparr>,
                              service_interval_days := 30\<rparr>"

text \<open>A bus serviced on 15/01/2024 with a day interval of 30 and few kilometres driven.\<close>

definition dated_bus :: Bus where
  "dated_bus = scenario_bus\<lparr>service_interval_days := 30\<rparr>"

text \<open>A bus driven 11000 km past its last service, with no dates at all.\<close>

definition worn_bus :: Bus where
  "worn_bus = undated_bus\<lparr>current_mileage := Finite 20000, service_interval_days := 0\<rparr>"

text \<open>A bus with no mileage interval configured.\<close>

definition no_interval_bus :: Bus where
  "no_interval_bus = scenario_bus\<lparr>service_interval_km := Finite 0\<rparr>"

text \<open>A fleet of two buses (numbers 7 and 8) in an array of four slots.\<close>

definition second_bus :: Bus where
  "second_bus = scenario_bus\<lparr>bus_code := ''CHD-102B'', driver_name := ''Ravi Kumar'',
                             bus_no := 8\<rparr>"

definition two_bus_fleet :: Fleet where
  "two_bus_fleet = \<lparr>slots = [scenario_bus, second_bus, undated_bus, undated_bus], used = 2\<rparr>"

text \<open>
  Console input for \<^verbatim>\<open>add_bus\<close>: a code and a number that the two-bus fleet does not
  have, then the other fields; and the bus they make.
\<close>

definition fresh_input :: string where
  "fresh_input = ''chd-103\<newline>9\<newline>Bob Singh\<newline>1/2/2024\<newline>50\<newline>60\<newline>10000\<newline>0\<newline>100\<newline>4.5\<newline>2\<newline>''"

definition details_input :: string where
  "details_input = ''Bob Singh\<newline>1/2/2024\<newline>50\<newline>60\<newline>10000\<newline>0\<newline>100\<newline>4.5\<newline>2\<newline>''"

definition duplicate_number_input :: string where
  "duplicate_number_input = ''chd-103\<newline>7\<newline>9\<newline>'' @ details_input"

definition third_bus :: Bus where
  "third_bus = \<lparr>bus_code = ''CHD-103'', driver_name = ''Bob Singh'', bus_no = 9,
      last_service = \<lparr>day = 1, month = 2, year = 2024\<rparr>,
      next_due = \<lparr>day = 0, month = 0, year = 0\<rparr>,
      current_mileage = Finite 60, last_service_mileage = Finite 50,
      service_interval_km = Finite 10000, service_interval_days = 0,
      service_history_count = 2, status = STATUS_OK, km_left = Finite 0,
      health_score = 100, avg_daily_km = Finite 100, fuel_efficiency = Finite (9 / 2)\<rparr>"

text \<open>
  Data files. \<open>junk_bus\<close> stands for what a fresh slot of the heap holds.
  \<open>corrupt_file\<close> announces two buses; its first record line has a word where the bus
  number belongs, its second line is well formed. \<open>corrupt_rest\<close> and \<open>corrupt_rest2\<close>
  are the places in it where the scans of the loader stop. \<open>piped_bus\<close> has a driver name
  with the separator in it, \<open>piped_file\<close> is the file saved for it, and \<open>two_bus_file\<close>
  the file saved for the two-bus fleet.
\<close>

definition junk_bus :: Bus where
  "junk_bus = \<lparr>bus_code = ''?'', driver_name = ''?'', bus_no = - 1,
      last_service = \<lparr>day = - 1, month = - 1, year = - 1\<rparr>,
      next_due = \<lparr>day = - 1, month = - 1, year = - 1\<rparr>,
      current_mileage = NaN, last_service_mileage = NaN,
      service_interval_km = NaN, service_interval_days = - 1,
      service_history_count = - 1, status = - 1, km_left = NaN,
      health_score = - 1, avg_daily_km = NaN, fuel_efficiency = NaN\<rparr>"

definition corrupt_line :: string where
  "corrupt_line = ''CHD-101A|Asha Rao|seven|15|1|2024|0|0|0|9200.00|9000.00|10000.00|0|3|0|0.00|100|120.00|4.00\<newline>''"

definition good_line :: string where
  "good_line = ''CHD-102B|Ravi Kumar|8|15|1|2024|0|0|0|9200.00|9000.00|10000.00|0|3|0|0.00|100|120.00|4.00\<newline>''"

definition corrupt_body :: string where
  "corrupt_body = corrupt_line @ good_line"

definition corrupt_file :: string where
  "corrupt_file = ''2\<newline>'' @ corrupt_body"

definition corrupt_rest :: string where
  "corrupt_rest = ''seven|15|1|2024|0|0|0|9200.00|9000.00|10000.00|0|3|0|0.00|100|120.00|4.00\<newline>'' @ good_line"

definition corrupt_rest2 :: string where
  "corrupt_rest2 = ''.00|9000.00|10000.00|0|3|0|0.00|100|120.00|4.00\<newline>'' @ good_line"

definition piped_bus :: Bus where
  "piped_bus = scenario_bus\<lparr>driver_name := ''Asha|Rao''\<rparr>"

definition piped_line :: string where
  "piped_line = ''CHD-101A|Asha|Rao|7|15|1|2024|0|0|0|9200.00|9000.00|10000.00|0|3|0|0.00|100|120.00|4.00\<newline>''"

definition piped_file :: string where
  "piped_file = ''1\<newline>'' @ piped_line"

definition piped_rest :: string where
  "piped_rest = ''Rao|7|15|1|2024|0|0|0|9200.00|9000.00|10000.00|0|3|0|0.00|100|120.00|4.00\<newline>''"

definition two_bus_line1 :: string where
  "two_bus_line1 = ''CHD-101A|Asha Rao|7|15|1|2024|0|0|0|9200.00|9000.00|10000.00|0|3|0|0.00|100|120.00|4.00\<newline>''"

definition two_bus_body :: string where
  "two_bus_body = two_bus_line1 @ good_line"

definition two_bus_file :: string where
  "two_bus_file = ''2\<newline>'' @ two_bus_body"

section \<open>Verified properties\<close>

subsection \<open>Arithmetic of the helpers\<close>

lemma sint_small_word_of_int:
  "- 30 < i \<Longrightarrow> i < 30 \<Longrightarrow> sint (word_of_int i :: cint) = i"
  by (simp add: sint_sbintrunc' signed_take_bit_int_eq_self)

lemma smod_30_range: "- 30 < (a::int) smod 30 \<and> a smod 30 < 30"
  using smod_int_range [of 30 a] by simp

lemma sint_c_mod_30: "sint (c_mod a 30) < 30"
proof -
  have "sint (c_mod a 30) = sint a smod 30"
    using smod_30_range [of "sint a"] by (simp add: c_mod_def sint_small_word_of_int)
  then show ?thesis using smod_30_range [of "sint a"] by simp
qed

lemma day_days_to_date: "day (days_to_date t) \<le>s 29"
proof -
  have "sint (c_mod (c_mod t 365) 30) < 30" by (rule sint_c_mod_30)
  then show ?thesis
    by (simp add: days_to_date_def Let_def word_sle_eq)
qed

lemma clamp_health_range:
  "0 \<le>s (if 100 <s (if h <s 0 then 0 else h) then 100 else (if h <s 0 then 0 else h)) \<and>
   (if 100 <s (if h <s 0 then 0 else h) then 100 else (if h <s 0 then 0 else h)) \<le>s (100::cint)"
  by (auto simp: word_sle_eq word_sless_alt)

subsection \<open>Rounding is monotone\<close>

text \<open>
  The quantum is a power of two that grows with the magnitude, and rounding to a multiple
  of it never passes a binade boundary, so \<open>fl_round\<close> preserves \<open>\<le>\<close>.
\<close>

lemma fl_quantum_pos: "0 < fl_quantum n"
  by (induction n rule: fl_quantum.induct) (subst fl_quantum.simps, simp)

lemma fl_quantum_upper: "n < 2 ^ 24 * fl_quantum n"
proof (induction n rule: fl_quantum.induct)
  case (1 n)
  show ?case
  proof (cases "n < 2 ^ 24")
    case True
    then show ?thesis by (subst fl_quantum.simps) simp
  next
    case False
    from "1.IH" [OF False] have "n div 2 < 2 ^ 24 * fl_quantum (n div 2)" .
    then have "n < 2 ^ 24 * (2 * fl_quantum (n div 2))" by linarith
    with False show ?thesis by (subst fl_quantum.simps) simp
  qed
qed

lemma fl_quantum_lower: "1 < fl_quantum n \<Longrightarrow> 2 ^ 23 * fl_quantum n \<le> n"
proof (induction n rule: fl_quantum.induct)
  case (1 n)
  show ?case
  proof (cases "n < 2 ^ 24")
    case True
    with "1.prems" show ?thesis by (subst (asm) fl_quantum.simps) simp
  next
    case False
    have q: "fl_quantum n = 2 * fl_quantum (n div 2)"
      using False by (subst fl_quantum.simps) simp
    show ?thesis
    proof (cases "1 < fl_quantum (n div 2)")
      case True
      from "1.IH" [OF False True] have "2 ^ 23 * fl_quantum (n div 2) \<le> n div 2" .
      then show ?thesis unfolding q by linarith
    next
      case False
      with fl_quantum_pos [of "n div 2"] have "fl_quantum (n div 2) = 1" by linarith
      with \<open>\<not> n < 2 ^ 24\<close> show ?thesis unfolding q by simp
    qed
  qed
qed

lemma fl_quantum_mono: "n \<le> m \<Longrightarrow> fl_quantum n \<le> fl_quantum m"
proof (induction n arbitrary: m rule: fl_quantum.induct)
  case (1 n)
  show ?case
  proof (cases "n < 2 ^ 24")
    case True
    then have "fl_quantum n = 1" by (subst fl_quantum.simps) simp
    with fl_quantum_pos [of m] show ?thesis by linarith
  next
    case False
    with "1.prems" have m: "\<not> m < 2 ^ 24" by linarith
    from "1.prems" have "n div 2 \<le> m div 2" by (rule zdiv_mono1) simp
    from "1.IH" [OF False this] have "fl_quantum (n div 2) \<le> fl_quantum (m div 2)" .
    with False m show ?thesis
      by (subst fl_quantum.simps, subst (2) fl_quantum.simps) simp
  qed
qed

lemma fl_quantum_pow2: "\<exists>k. fl_quantum n = 2 ^ k"
proof (induction n rule: fl_quantum.induct)
  case (1 n)
  show ?case
  proof (cases "n < 2 ^ 24")
    case True
    then have "fl_quantum n = 2 ^ 0" by (subst fl_quantum.simps) simp
    then show ?thesis by blast
  next
    case False
    from "1.IH" [OF False] obtain k where "fl_quantum (n div 2) = 2 ^ k" by blast
    with False have "fl_quantum n = 2 ^ Suc k" by (subst fl_quantum.simps) simp
    then show ?thesis by blast
  qed
qed

lemma fl_quantum_gap: "fl_quantum n < fl_quantum m \<Longrightarrow> 2 * fl_quantum n \<le> fl_quantum m"
proof -
  assume lt: "fl_quantum n < fl_quantum m"
  obtain j k where j: "fl_quantum n = 2 ^ j" and k: "fl_quantum m = 2 ^ k"
    using fl_quantum_pow2 by blast
  with lt have "j < k" by (simp add: power_strict_increasing_iff)
  then have "Suc j \<le> k" by simp
  then have "(2::int) ^ Suc j \<le> 2 ^ k" by (rule power_increasing) simp
  with j k show ?thesis by simp
qed

lemma round_half_even_mono: "x \<le> y \<Longrightarrow> round_half_even x \<le> round_half_even y"
proof -
  assume xy: "x \<le> y"
  have fl: "\<lfloor>x\<rfloor> \<le> \<lfloor>y\<rfloor>" using xy by (rule floor_mono)
  show ?thesis
  proof (cases "\<lfloor>x\<rfloor> = \<lfloor>y\<rfloor>")
    case True
    with xy show ?thesis
      by (auto simp: round_half_even_def Let_def)
  next
    case False
    with fl have "\<lfloor>x\<rfloor> + 1 \<le> \<lfloor>y\<rfloor>" by linarith
    moreover have "round_half_even x \<le> \<lfloor>x\<rfloor> + 1"
      by (auto simp: round_half_even_def Let_def)
    moreover have "\<lfloor>y\<rfloor> \<le> round_half_even y"
      by (auto simp: round_half_even_def Let_def)
    ultimately show ?thesis by linarith
  qed
qed

lemma round_half_even_int: "round_half_even (of_int n) = n"
  by (simp add: round_half_even_def Let_def)

lemma round_half_even_le: "x \<le> of_int n \<Longrightarrow> round_half_even x \<le> n"
  using round_half_even_mono [of x "of_int n"] by (simp add: round_half_even_int)

lemma round_half_even_ge: "of_int n \<le> x \<Longrightarrow> n \<le> round_half_even x"
  using round_half_even_mono [of "of_int n" x] by (simp add: round_half_even_int)


lemma fl_mag_nonneg: "0 \<le> s \<Longrightarrow> 0 \<le> fl_mag s"
proof -
  assume s: "0 \<le> s"
  have q: "(0::rat) < of_int (fl_quantum \<lfloor>s\<rfloor>)"
    using fl_quantum_pos [of "\<lfloor>s\<rfloor>"] by simp
  with s have "of_int 0 \<le> s / of_int (fl_quantum \<lfloor>s\<rfloor>)" by simp
  then have "0 \<le> round_half_even (s / of_int (fl_quantum \<lfloor>s\<rfloor>))"
    by (rule round_half_even_ge)
  with q show ?thesis by (simp add: fl_mag_def Let_def)
qed

lemma fl_mag_mono:
  assumes "0 \<le> s" and "s \<le> t"
  shows "fl_mag s \<le> fl_mag t"
proof -
  let ?qs = "fl_quantum \<lfloor>s\<rfloor>" and ?qt = "fl_quantum \<lfloor>t\<rfloor>"
  have qs: "0 < ?qs" and qt: "0 < ?qt" by (rule fl_quantum_pos)+
  have le: "?qs \<le> ?qt" using assms(2) by (intro fl_quantum_mono floor_mono)
  show ?thesis
  proof (cases "?qs = ?qt")
    case True
    from assms(2) qt have "s / of_int ?qt \<le> t / of_int ?qt"
      by (simp add: divide_right_mono)
    then have "round_half_even (s / of_int ?qt) \<le> round_half_even (t / of_int ?qt)"
      by (rule round_half_even_mono)
    then have "(of_int (round_half_even (s / of_int ?qt)) :: rat) * of_int ?qt
               \<le> of_int (round_half_even (t / of_int ?qt)) * of_int ?qt"
      using qt by (intro mult_right_mono) simp_all
    with True show ?thesis by (simp add: fl_mag_def Let_def)
  next
    case False
    define B :: int where "B = 2 ^ 23"
    have B: "0 < B" "(2::int) ^ 23 = B" "(2::int) ^ 24 = 2 * B"
      by (simp_all add: B_def)
    from False le have lt: "?qs < ?qt" by simp
    then have gap: "2 * ?qs \<le> ?qt" by (rule fl_quantum_gap)
    from lt qs have "1 < ?qt" by linarith
    then have "B * ?qt \<le> \<lfloor>t\<rfloor>" unfolding B(2) [symmetric] by (rule fl_quantum_lower)
    then have "(of_int (B * ?qt) :: rat) \<le> t"
      using le_floor_iff by blast
    then have "(of_int B :: rat) \<le> t / of_int ?qt"
      using qt by (simp add: pos_le_divide_eq)
    then have "B \<le> round_half_even (t / of_int ?qt)"
      by (rule round_half_even_ge)
    then have "B * ?qt \<le> round_half_even (t / of_int ?qt) * ?qt"
      using qt by (intro mult_right_mono) simp_all
    then have "(of_int (B * ?qt) :: rat) \<le> of_int (round_half_even (t / of_int ?qt) * ?qt)"
      by (simp only: of_int_le_iff)
    then have lower: "(of_int (B * ?qt) :: rat) \<le> fl_mag t"
      by (simp add: fl_mag_def Let_def)
    have "\<lfloor>s\<rfloor> < 2 * B * ?qs" unfolding B(3) [symmetric] by (rule fl_quantum_upper)
    then have "s < of_int (2 * B * ?qs)"
      using floor_less_iff by blast
    then have "s / of_int ?qs \<le> of_int (2 * B)"
      using qs by (simp add: pos_divide_le_eq)
    then have "round_half_even (s / of_int ?qs) \<le> 2 * B"
      by (rule round_half_even_le)
    then have "round_half_even (s / of_int ?qs) * ?qs \<le> 2 * B * ?qs"
      using qs by (intro mult_right_mono) simp_all
    then have "(of_int (round_half_even (s / of_int ?qs) * ?qs) :: rat) \<le> of_int (2 * B * ?qs)"
      by (simp only: of_int_le_iff)
    then have upper: "fl_mag s \<le> of_int (2 * B * ?qs)"
      by (simp add: fl_mag_def Let_def)
    from gap B(1) have "2 * B * ?qs \<le> B * ?qt"
      by (simp add: mult.assoc mult.left_commute)
    then have "(of_int (2 * B * ?qs) :: rat) \<le> of_int (B * ?qt)"
      by (simp only: of_int_le_iff)
    with lower upper show ?thesis by linarith
  qed
qed

lemma fl_round_mono:
  assumes "x \<le> y"
  shows "fle (fl_round x) (fl_round y)"
proof -
  let ?vx = "fl_mag (\<bar>x\<bar> * 2 ^ 149)" and ?vy = "fl_mag (\<bar>y\<bar> * 2 ^ 149)"
  have vx: "0 \<le> ?vx" and vy: "0 \<le> ?vy" by (rule fl_mag_nonneg, simp)+
  consider "0 \<le> x" | "x < 0" "0 \<le> y" | "y < 0" using assms by linarith
  then show ?thesis
  proof cases
    case 1
    with assms have "\<bar>x\<bar> * 2 ^ 149 \<le> \<bar>y\<bar> * 2 ^ 149" by simp
    then have "?vx \<le> ?vy" by (intro fl_mag_mono) simp_all
    moreover from 1 assms have "0 \<le> y" by simp
    moreover have "sgn x * ?vx \<le> sgn y * ?vy" if "?vx \<le> ?vy"
    proof (cases "x = 0")
      case True
      with \<open>0 \<le> y\<close> vy show ?thesis by (simp add: sgn_if)
    next
      case False
      with 1 assms that show ?thesis by (simp add: sgn_if)
    qed
    ultimately show ?thesis
      using 1 by (auto simp: fl_round_def Let_def divide_right_mono)
  next
    case 2
    with vx vy show ?thesis
      by (auto simp: fl_round_def Let_def sgn_if divide_nonneg_pos
          intro: order_trans [of _ 0])
  next
    case 3
    with assms have x: "x < 0" by simp
    from 3 assms have "\<bar>y\<bar> * 2 ^ 149 \<le> \<bar>x\<bar> * 2 ^ 149" by simp
    then have "?vy \<le> ?vx" by (intro fl_mag_mono) simp_all
    with 3 x show ?thesis
      by (auto simp: fl_round_def Let_def sgn_if divide_right_mono)
  qed
qed

lemma fge_exact_sum:
  assumes "is_binary32 a" and "l + i \<le> a"
  shows "fge (Finite a) (fadd (Finite l) (Finite i))"
  using fl_round_mono [OF assms(2)] assms(1)
  by (simp add: fge_def is_binary32_def)

subsection \<open>Float arithmetic of the scenarios\<close>

lemma fl_19000: "fadd (Finite 9000) (Finite 10000) = Finite 19000"
  by code_simp

lemma fl_9800: "fsub (Finite 19000) (Finite 9200) = Finite 9800"
  by code_simp

lemma fl_9400: "fsub (Finite 19000) (Finite 9600) = Finite 9400"
  by code_simp

lemma fl_500: "float_of_int DUE_SOON_KM = Finite 500"
  by code_simp

lemma fl_200: "fsub (Finite 9200) (Finite 9000) = Finite 200"
  by code_simp

lemma fl_600: "fsub (Finite 9600) (Finite 9000) = Finite 600"
  by code_simp

lemma fl_ratio_200: "fdiv (Finite 200) (Finite 10000) = Finite (5368709 / 268435456)"
  by code_simp

lemma fl_ratio_600: "fdiv (Finite 600) (Finite 10000) = Finite (16106127 / 268435456)"
  by code_simp

lemma fl_health_200:
  "fmul (fdiv (fsub (Finite (3 / 2)) (Finite (5368709 / 268435456))) (Finite (3 / 2))) (Finite 100)
   = Finite (6466219 / 65536)"
  by code_simp

lemma fl_health_600:
  "fmul (fdiv (fsub (Finite (3 / 2)) (Finite (16106127 / 268435456))) (Finite (3 / 2))) (Finite 100)
   = Finite 96"
  by code_simp

lemmas scenario_floats =
  fl_19000 fl_9800 fl_9400 fl_500 fl_200 fl_600 fl_ratio_200 fl_ratio_600
  fl_health_200 fl_health_600

lemma tr_98: "rat_truncate (6466219 / 65536) = 98"
  by code_simp

lemma tr_96: "rat_truncate 96 = 96"
  by code_simp

subsection \<open>The maintenance evaluator\<close>

lemma km_left_update:
  "km_left (update_maintenance_status ub b today) =
   fsub (fadd (last_service_mileage b) (service_interval_km b)) (current_mileage b)"
  by (simp add: update_maintenance_status_def Let_def)

lemma scenario_evaluation:
  "let b1 = update_maintenance_status ub
              (b\<lparr>last_service_mileage := Finite 9000, service_interval_km := Finite 10000,
                 service_interval_days := 0, current_mileage := Finite 9200\<rparr>) today;
       b2 = update_maintenance_status ub
              (b\<lparr>last_service_mileage := Finite 9000, service_interval_km := Finite 10000,
                 service_interval_days := 0, current_mileage := Finite 9600\<rparr>) today
   in km_left b1 = Finite 9800 \<and> status b1 = STATUS_OK \<and> health_score b1 = 98 \<and>
      km_left b2 = Finite 9400 \<and> status b2 = STATUS_OK \<and> health_score b2 = 96"
  by (simp add: update_maintenance_status_def Let_def scenario_floats fge_def fgt_def
      tr_98 tr_96 word_sless_alt
      del: fadd.simps fmul.simps fdiv.simps)

text \<open>
  C1 (as amended). For every record with \<open>lastServiceMileage = 9000\<close>,
  \<open>serviceIntervalKm = 10000\<close> and \<open>serviceIntervalDays = 0\<close>, whatever its other fields and
  the reference date: with \<open>currentMileage = 9200\<close> evaluation yields \<open>kmLeft = 9800\<close>,
  status OK and \<open>healthScore = 98\<close>; with \<open>currentMileage = 9600\<close> it yields
  \<open>kmLeft = 9400\<close>, status OK and \<open>healthScore = 96\<close>. (The due mileage is
  \<open>9000 + 10000 = 19000\<close>, and the used share of the interval is 2 and 6 per cent.)
\<close>

theorem scenario_values:
  "let b1 = update_maintenance_status ub
              (b\<lparr>last_service_mileage := Finite 9000, service_interval_km := Finite 10000,
                 service_interval_days := 0, current_mileage := Finite 9200\<rparr>) today;
       b2 = update_maintenance_status ub
              (b\<lparr>last_service_mileage := Finite 9000, service_interval_km := Finite 10000,
                 service_interval_days := 0, current_mileage := Finite 9600\<rparr>) today
   in km_left b1 = Finite 9800 \<and> status b1 = STATUS_OK \<and> health_score b1 = 98 \<and>
      km_left b2 = Finite 9400 \<and> status b2 = STATUS_OK \<and> health_score b2 = 96"
  by (rule scenario_evaluation)

text \<open>
  C1 as stated fails on the scenario record: the values 800, OK, 87 and 400, DUE_SOON, 60
  are not what evaluation yields (already \<open>kmLeft\<close> is 9800, not 800).
\<close>

theorem scenario_values_counterexample:
  "\<not> (km_left (update_maintenance_status cast_indefinite scenario_bus ref_date) = Finite 800 \<and>
      status (update_maintenance_status cast_indefinite scenario_bus ref_date) = STATUS_OK \<and>
      health_score (update_maintenance_status cast_indefinite scenario_bus ref_date) = 87 \<and>
      km_left (update_maintenance_status cast_indefinite
                 (scenario_bus\<lparr>current_mileage := Finite 9600\<rparr>) ref_date) = Finite 400 \<and>
      status (update_maintenance_status cast_indefinite
                 (scenario_bus\<lparr>current_mileage := Finite 9600\<rparr>) ref_date) = STATUS_DUE_SOON \<and>
      health_score (update_maintenance_status cast_indefinite
                 (scenario_bus\<lparr>current_mileage := Finite 9600\<rparr>) ref_date) = 60)"
  by (simp add: km_left_update scenario_bus_def scenario_floats del: fadd.simps)

text \<open>
  C3. Whenever the current mileage has reached the due mileage
  (\<^verbatim>\<open>current_mileage >= last_service_mileage + service_interval_km\<close>), the status after
  evaluation is OVERDUE, whatever the last service date, the day interval and the
  reference date are. This holds with the sum as the program computes it, in float
  arithmetic, and also with the exact sum of three finite floats, since rounding the sum
  cannot lift it above a float that it does not exceed.
\<close>

theorem mileage_overdue_status:
  "(fge (current_mileage b) (fadd (last_service_mileage b) (service_interval_km b))
      \<longrightarrow> status (update_maintenance_status ub b today) = STATUS_OVERDUE) \<and>
   (current_mileage b = Finite a \<and> is_binary32 a \<and> last_service_mileage b = Finite l \<and>
    service_interval_km b = Finite i \<and> l + i \<le> a
      \<longrightarrow> status (update_maintenance_status ub b today) = STATUS_OVERDUE)"
proof -
  have float: "fge (current_mileage b) (fadd (last_service_mileage b) (service_interval_km b))
      \<Longrightarrow> status (update_maintenance_status ub b today) = STATUS_OVERDUE"
    by (simp add: update_maintenance_status_def Let_def)
  have exact: "status (update_maintenance_status ub b today) = STATUS_OVERDUE"
    if "current_mileage b = Finite a" "is_binary32 a" "last_service_mileage b = Finite l"
      "service_interval_km b = Finite i" "l + i \<le> a"
    using float fge_exact_sum [OF that(2,5)] that(1,3,4) by simp
  from float exact show ?thesis by blast
qed

lemma worn_bus_facts:
  "current_mileage worn_bus = Finite 20000"
  "last_service_mileage worn_bus = Finite 9000"
  "service_interval_km worn_bus = Finite 10000"
  by (simp_all add: worn_bus_def undated_bus_def scenario_bus_def)

lemma binary32_20000: "is_binary32 20000"
  by code_simp

theorem mileage_overdue_status_witness:
  "fge (current_mileage worn_bus)
       (fadd (last_service_mileage worn_bus) (service_interval_km worn_bus)) \<and>
   current_mileage worn_bus = Finite 20000 \<and> is_binary32 20000 \<and>
   last_service_mileage worn_bus = Finite 9000 \<and>
   service_interval_km worn_bus = Finite 10000 \<and> (9000::rat) + 10000 \<le> 20000 \<and>
   status (update_maintenance_status cast_indefinite worn_bus ref_date) = STATUS_OVERDUE"
proof -
  have h: "fge (current_mileage worn_bus)
             (fadd (last_service_mileage worn_bus) (service_interval_km worn_bus))"
    by (simp add: worn_bus_facts fl_19000 fge_def del: fadd.simps)
  have e: "(9000::rat) + 10000 \<le> 20000"
    by simp
  from mileage_overdue_status [of worn_bus cast_indefinite ref_date 20000 9000 10000]
    h worn_bus_facts binary32_20000 e
  show ?thesis by blast
qed

lemma date_to_days_word: "date_to_days d = word_of_int (day_count d)"
  by (simp add: date_to_days_def day_count_def)

lemma sint_word_of_int_32:
  "- (2 ^ 31) \<le> k \<Longrightarrow> k < 2 ^ 31 \<Longrightarrow> sint (word_of_int k :: cint) = k"
  by (simp add: sint_sbintrunc' signed_take_bit_int_eq_self)

lemma day_count_pos: "is_valid_date d \<Longrightarrow> 0 < day_count d"
  by (auto simp: is_valid_date_def day_count_def word_sle_eq word_sless_alt split: if_splits)

lemma sint_date_to_days:
  "is_valid_date d \<Longrightarrow> day_count d < 2 ^ 31 \<Longrightarrow> sint (date_to_days d) = day_count d"
  using day_count_pos [of d] by (simp add: date_to_days_word sint_word_of_int_32)

lemma sint_days_since:
  assumes "is_valid_date d" and "is_valid_date t"
    and "day_count d < 2 ^ 31" and "day_count t < 2 ^ 31"
  shows "sint (date_to_days t - date_to_days d) = day_count t - day_count d"
proof -
  have "date_to_days t - date_to_days d = word_of_int (day_count t - day_count d)"
    by (simp add: date_to_days_word)
  moreover have "- (2 ^ 31) \<le> day_count t - day_count d" "day_count t - day_count d < 2 ^ 31"
    using assms day_count_pos [of d] day_count_pos [of t] by linarith+
  ultimately show ?thesis by (simp only: sint_word_of_int_32)
qed

lemma day_count_fits:
  "is_valid_date d \<Longrightarrow> sint (year d) \<le> 5883515 \<Longrightarrow> day_count d < 2 ^ 31"
  by (auto simp: is_valid_date_def day_count_def word_sle_eq word_sless_alt split: if_splits)

text \<open>
  C4 (as amended). When the day interval is positive, the last service date and the
  reference date are both structurally valid, their day counts fit the program's 32-bit
  \<^verbatim>\<open>int\<close> (\<open>dayCount(d) < 2^31\<close>, which holds for every valid date up to the year 5883515:
  lemma \<open>day_count_fits\<close>), and
  \<open>dayCount(referenceDate) - dayCount(lastServiceDate) \<ge> serviceIntervalDays\<close>, with
  \<open>dayCount(d) = d.year*365 + d.month*30 + d.day\<close> over the integers, the status after
  evaluation is OVERDUE, even if the mileage is not overdue.
\<close>

theorem date_overdue_status:
  assumes "0 < sint (service_interval_days b)"
    and "is_valid_date (last_service b)" and "is_valid_date today"
    and "day_count (last_service b) < 2 ^ 31" and "day_count today < 2 ^ 31"
    and "sint (service_interval_days b) \<le> day_count today - day_count (last_service b)"
  shows "status (update_maintenance_status ub b today) = STATUS_OVERDUE"
proof -
  have "sint (date_to_days today - date_to_days (last_service b))
        = day_count today - day_count (last_service b)"
    using assms(2-5) by (intro sint_days_since)
  with assms show ?thesis
    by (simp add: update_maintenance_status_def Let_def word_sle_eq word_sless_alt)
qed

lemma dated_bus_facts:
  "0 < sint (service_interval_days dated_bus)"
  "is_valid_date (last_service dated_bus)"
  "is_valid_date ref_date"
  "day_count (last_service dated_bus) < 2 ^ 31"
  "day_count ref_date < 2 ^ 31"
  "sint (service_interval_days dated_bus) \<le> day_count ref_date - day_count (last_service dated_bus)"
  "\<not> fge (current_mileage dated_bus)
         (fadd (last_service_mileage dated_bus) (service_interval_km dated_bus))"
  by (simp_all add: dated_bus_def scenario_bus_def ref_date_def is_valid_date_def
      day_count_def word_sle_eq word_sless_alt fl_19000 fge_def del: fadd.simps)

theorem date_overdue_status_witness:
  "0 < sint (service_interval_days dated_bus) \<and> is_valid_date (last_service dated_bus) \<and>
   is_valid_date ref_date \<and> day_count (last_service dated_bus) < 2 ^ 31 \<and>
   day_count ref_date < 2 ^ 31 \<and>
   sint (service_interval_days dated_bus)
     \<le> day_count ref_date - day_count (last_service dated_bus) \<and>
   \<not> fge (current_mileage dated_bus)
         (fadd (last_service_mileage dated_bus) (service_interval_km dated_bus)) \<and>
   status (update_maintenance_status cast_indefinite dated_bus ref_date) = STATUS_OVERDUE"
  using date_overdue_status [OF dated_bus_facts(1-6), of cast_indefinite] dated_bus_facts
  by simp

text \<open>
  C4 as stated fails in two ways. For a record whose last service date is not a valid
  date (0/0/0, as the data file can hold), the day interval is positive and the day counts
  are more than the interval apart, yet the status after evaluation is OK: the day check
  is guarded by \<^verbatim>\<open>is_valid_date\<close>. And for the reference date 1/1/6000000, which
  \<^verbatim>\<open>read_date\<close> accepts, and a bus serviced on 15/01/2024 with a day interval of 30, the
  day counts are 2190000031 and 738805, yet the status is OK: \<^verbatim>\<open>date_to_days\<close> overflows
  the \<^verbatim>\<open>int\<close> and the difference the program sees is negative.
\<close>

lemma read_far_date: "read_date ''1/1/6000000\<newline>'' = Some (far_date, [], [])"
  by code_simp

lemma far_date_wraps: "sint (date_to_days far_date) = - 2104967265"
  by (simp add: far_date_def date_to_days_def)

theorem date_overdue_status_counterexample:
  "(0 < sint (service_interval_days undated_bus) \<and>
    sint (service_interval_days undated_bus)
      \<le> day_count ref_date - day_count (last_service undated_bus) \<and>
    status (update_maintenance_status cast_indefinite undated_bus ref_date) \<noteq> STATUS_OVERDUE) \<and>
   (read_date ''1/1/6000000\<newline>'' = Some (far_date, [], []) \<and>
    is_valid_date (last_service dated_bus) \<and> is_valid_date far_date \<and>
    0 < sint (service_interval_days dated_bus) \<and>
    sint (service_interval_days dated_bus)
      \<le> day_count far_date - day_count (last_service dated_bus) \<and>
    status (update_maintenance_status cast_indefinite dated_bus far_date) \<noteq> STATUS_OVERDUE)"
proof -
  have a: "0 < sint (service_interval_days undated_bus) \<and>
    sint (service_interval_days undated_bus)
      \<le> day_count ref_date - day_count (last_service undated_bus) \<and>
    status (update_maintenance_status cast_indefinite undated_bus ref_date) \<noteq> STATUS_OVERDUE"
    by (simp add: undated_bus_def scenario_bus_def ref_date_def is_valid_date_def
      day_count_def word_sle_eq word_sless_alt update_maintenance_status_def Let_def
      scenario_floats fge_def STATUS_OK_def STATUS_OVERDUE_def STATUS_DUE_SOON_def
      del: fadd.simps fmul.simps fdiv.simps)
  have b: "is_valid_date (last_service dated_bus) \<and> is_valid_date far_date \<and>
    0 < sint (service_interval_days dated_bus) \<and>
    sint (service_interval_days dated_bus)
      \<le> day_count far_date - day_count (last_service dated_bus) \<and>
    status (update_maintenance_status cast_indefinite dated_bus far_date) \<noteq> STATUS_OVERDUE"
    by (simp add: dated_bus_def scenario_bus_def far_date_def is_valid_date_def
      day_count_def date_to_days_def word_sle_eq word_sless_alt update_maintenance_status_def
      Let_def scenario_floats fge_def STATUS_OK_def STATUS_OVERDUE_def STATUS_DUE_SOON_def
      del: fadd.simps fmul.simps fdiv.simps)
  from a b read_far_date show ?thesis by blast
qed


text \<open>
  C5. After evaluation the health score is an integer between 0 and 100, whatever the
  record and the reference date are (and whatever an out-of-range cast yields); it is
  exactly 50 whenever \<^verbatim>\<open>service_interval_km == 0\<close>.
\<close>

theorem health_score_range:
  "0 \<le>s health_score (update_maintenance_status ub b today) \<and>
   health_score (update_maintenance_status ub b today) \<le>s 100 \<and>
   (service_interval_km b = Finite 0 \<longrightarrow>
      health_score (update_maintenance_status ub b today) = 50)"
proof (cases "fgt (service_interval_km b) (Finite 0)")
  case True
  then have "service_interval_km b \<noteq> Finite 0"
    by (auto simp: fgt_def)
  with True show ?thesis
    using clamp_health_range
    by (simp add: update_maintenance_status_def Let_def)
next
  case False
  then show ?thesis
    by (simp add: update_maintenance_status_def Let_def word_sle_eq fgt_def)
qed

theorem health_score_range_witness:
  "service_interval_km no_interval_bus = Finite 0 \<and>
   health_score (update_maintenance_status cast_indefinite no_interval_bus ref_date) = 50 \<and>
   0 \<le>s health_score (update_maintenance_status cast_indefinite no_interval_bus ref_date) \<and>
   health_score (update_maintenance_status cast_indefinite no_interval_bus ref_date) \<le>s 100"
proof -
  have h: "service_interval_km no_interval_bus = Finite 0"
    by (simp add: no_interval_bus_def)
  from health_score_range [of cast_indefinite no_interval_bus ref_date] h
  show ?thesis by blast
qed

text \<open>
  C9. Evaluation writes only the four derived fields (status, km left, health score,
  next due date): every other field of the record is the same after the call.
\<close>

theorem update_maintenance_status_frame:
  "let b' = update_maintenance_status ub b today
   in bus_code b' = bus_code b \<and> bus_no b' = bus_no b \<and> driver_name b' = driver_name b \<and>
      last_service b' = last_service b \<and> current_mileage b' = current_mileage b \<and>
      last_service_mileage b' = last_service_mileage b \<and>
      service_interval_km b' = service_interval_km b \<and>
      service_interval_days b' = service_interval_days b \<and>
      service_history_count b' = service_history_count b \<and>
      avg_daily_km b' = avg_daily_km b \<and> fuel_efficiency b' = fuel_efficiency b"
  by (simp add: update_maintenance_status_def Let_def)

text \<open>
  C10. The day count is not invertible: 31/01/2000 is a structurally valid date and
  \<^verbatim>\<open>days_to_date(date_to_days(d))\<close> maps it to 01/02/2000. Consequently the day of a
  date that \<^verbatim>\<open>add_days\<close> computes, and so of the next due date after evaluation, is
  never greater than 29.
\<close>

theorem day_count_not_invertible:
  "is_valid_date \<lparr>day = 31, month = 1, year = 2000\<rparr> \<and>
   days_to_date (date_to_days \<lparr>day = 31, month = 1, year = 2000\<rparr>)
     = \<lparr>day = 1, month = 2, year = 2000\<rparr> \<and>
   days_to_date (date_to_days \<lparr>day = 31, month = 1, year = 2000\<rparr>)
     \<noteq> \<lparr>day = 31, month = 1, year = 2000\<rparr> \<and>
   day (add_days d n) \<le>s 29 \<and>
   day (next_due (update_maintenance_status ub b today)) \<le>s 29"
proof -
  have inv: "days_to_date (date_to_days \<lparr>day = 31, month = 1, year = 2000\<rparr>)
               = \<lparr>day = 1, month = 2, year = 2000\<rparr>"
    by (simp add: days_to_date_def date_to_days_def c_mod_def c_div_def)
  have valid: "is_valid_date \<lparr>day = 31, month = 1, year = 2000\<rparr>"
    by (simp add: is_valid_date_def word_sle_eq word_sless_alt)
  have add: "day (add_days d n) \<le>s 29"
    by (simp add: add_days_def day_days_to_date)
  have upd: "day (next_due (update_maintenance_status ub b today)) \<le>s 29"
    using day_days_to_date
    by (simp add: update_maintenance_status_def Let_def add_days_def word_sle_eq)
  from inv valid add upd show ?thesis by simp
qed

subsection \<open>The record store\<close>

lemma find_bus_index_from_eq:
  "i \<le> count \<Longrightarrow> count \<le> length fleet \<Longrightarrow>
   find_bus_index_from fleet count no i =
     (let xs = drop i (take count fleet)
      in if \<forall>b \<in> set xs. bus_no b \<noteq> no then - 1
         else int (i + length (takeWhile (\<lambda>b. bus_no b \<noteq> no) xs)))"
proof (induction fleet count no i rule: find_bus_index_from.induct)
  case (1 fleet count no i)
  show ?case
  proof (cases "i < count")
    case True
    with "1.prems" have "i < length (take count fleet)"
      by simp
    from Cons_nth_drop_Suc [OF this] True
    have d: "drop i (take count fleet) = fleet ! i # drop (i + 1) (take count fleet)"
      by simp
    show ?thesis
    proof (cases "bus_no (fleet ! i) = no")
      case e: True
      with True d show ?thesis
        by (subst find_bus_index_from.simps) (simp add: Let_def)
    next
      case ne: False
      from "1.IH" [OF True ne] True "1.prems"
      have "find_bus_index_from fleet count no (i + 1) =
        (let xs = drop (i + 1) (take count fleet)
         in if \<forall>b \<in> set xs. bus_no b \<noteq> no then - 1
            else int (i + 1 + length (takeWhile (\<lambda>b. bus_no b \<noteq> no) xs)))"
        by simp
      with True ne d show ?thesis
        by (subst find_bus_index_from.simps) (simp add: Let_def)
    qed
  next
    case False
    with "1.prems" show ?thesis
      by (subst find_bus_index_from.simps) (simp add: Let_def)
  qed
qed

lemma shift_left_length: "length (shift_left fleet count i) = length fleet"
  by (induction fleet count i rule: shift_left.induct)
     (subst shift_left.simps, simp)

lemma shift_left_nth:
  "j < length fleet \<Longrightarrow>
   shift_left fleet count i ! j = (if i \<le> j \<and> j + 1 < count then fleet ! (j + 1) else fleet ! j)"
proof (induction fleet count i rule: shift_left.induct)
  case (1 fleet count i)
  show ?case
  proof (cases "int i < int count - 1")
    case True
    from "1.IH" [OF True] "1.prems"
    have ih: "shift_left (fleet[i := fleet ! (i + 1)]) count (i + 1) ! j =
       (if i + 1 \<le> j \<and> j + 1 < count then fleet[i := fleet ! (i + 1)] ! (j + 1)
        else fleet[i := fleet ! (i + 1)] ! j)"
      by simp
    have unfold: "shift_left fleet count i = shift_left (fleet[i := fleet ! (i + 1)]) count (i + 1)"
      using True by (subst shift_left.simps) simp
    consider "j < i" | "j = i" | "i < j" by arith
    then show ?thesis
    proof cases
      case 1
      with ih "1.prems" show ?thesis by (simp add: unfold)
    next
      case 2
      with ih "1.prems" True show ?thesis by (simp add: unfold)
    next
      case 3
      with ih "1.prems" show ?thesis by (simp add: unfold)
    qed
  next
    case False
    then show ?thesis
      by (subst shift_left.simps) auto
  qed
qed

lemma take_shift_left:
  assumes "i < count" and "count \<le> length fleet"
  shows "take (count - 1) (shift_left fleet count i) =
         take i (take count fleet) @ drop (Suc i) (take count fleet)"
proof (rule nth_equalityI)
  from assms show "length (take (count - 1) (shift_left fleet count i)) =
      length (take i (take count fleet) @ drop (Suc i) (take count fleet))"
    by (simp add: shift_left_length) 
next
  fix j assume "j < length (take (count - 1) (shift_left fleet count i))"
  with assms have j: "j < count - 1" "j < length fleet"
    by (simp_all add: shift_left_length)
  with assms show "take (count - 1) (shift_left fleet count i) ! j =
      (take i (take count fleet) @ drop (Suc i) (take count fleet)) ! j"
    by (auto simp: shift_left_nth nth_append)
qed


lemma takeWhile_shorter:
  "\<exists>x \<in> set xs. \<not> P x \<Longrightarrow> length (takeWhile P xs) < length xs"
  by (induction xs) auto

text \<open>
  C7. \<^verbatim>\<open>delete_bus\<close>, for the number it reads from the console: when no bus of the fleet
  has that number it reports "not found" and returns the fleet as it was; otherwise it
  removes the first bus with that number and nothing else: the buses before it and after
  it stay, unchanged and in their order (those after it move one place to the left).
\<close>

theorem delete_bus_removes_first:
  assumes "used st \<le> length (slots st)"
    and "read_int_strict 1 9999999 inp = Some (no, inp', ms)"
  shows "((\<forall>b \<in> set (buses st). bus_no b \<noteq> no) \<longrightarrow>
            delete_bus st inp = Some (st, inp', ms @ [BusNotFound])) \<and>
         ((\<exists>b \<in> set (buses st). bus_no b = no) \<longrightarrow>
            (\<exists>st'. delete_bus st inp = Some (st', inp', ms @ [BusDeleted (used st - 1)]) \<and>
                   used st' = used st - 1 \<and> length (slots st') = length (slots st) \<and>
                   buses st' = takeWhile (\<lambda>b. bus_no b \<noteq> no) (buses st) @
                               tl (dropWhile (\<lambda>b. bus_no b \<noteq> no) (buses st))))"
proof -
  let ?P = "\<lambda>b. bus_no b \<noteq> no"
  let ?k = "length (takeWhile ?P (buses st))"
  have idx: "find_bus_index (slots st) (used st) no =
      (if \<forall>b \<in> set (buses st). ?P b then - 1 else int ?k)"
    using find_bus_index_from_eq [of 0 "used st" "slots st" no] assms(1)
    by (simp add: find_bus_index_def buses_def Let_def)
  have none: "(\<forall>b \<in> set (buses st). ?P b) \<longrightarrow>
      delete_bus st inp = Some (st, inp', ms @ [BusNotFound])"
    using assms(2) idx by (simp add: delete_bus_def)
  have some: "(\<exists>b \<in> set (buses st). bus_no b = no) \<longrightarrow>
      (\<exists>st'. delete_bus st inp = Some (st', inp', ms @ [BusDeleted (used st - 1)]) \<and>
             used st' = used st - 1 \<and> length (slots st') = length (slots st) \<and>
             buses st' = takeWhile ?P (buses st) @ tl (dropWhile ?P (buses st)))"
  proof
    assume ex: "\<exists>b \<in> set (buses st). bus_no b = no"
    then have k: "?k < length (buses st)"
      using takeWhile_shorter [of "buses st" ?P] by auto
    with assms(1) have k': "?k < used st"
      by (simp add: buses_def)
    let ?st' = "\<lparr>slots = shift_left (slots st) (used st) ?k, used = used st - 1\<rparr>"
    from ex idx assms(2)
    have d: "delete_bus st inp = Some (?st', inp', ms @ [BusDeleted (used st - 1)])"
      by (auto simp: delete_bus_def Let_def)
    have "buses ?st' = take ?k (buses st) @ drop (Suc ?k) (buses st)"
      using take_shift_left [OF k' assms(1)] by (simp add: buses_def)
    also have "take ?k (buses st) = takeWhile ?P (buses st)"
      by (rule takeWhile_eq_take [symmetric])
    also have "drop (Suc ?k) (buses st) = tl (drop ?k (buses st))"
      by (simp add: drop_Suc tl_drop)
    also have "drop ?k (buses st) = dropWhile ?P (buses st)"
      by (rule dropWhile_eq_drop [symmetric])
    finally have "buses ?st' = takeWhile ?P (buses st) @ tl (dropWhile ?P (buses st))" .
    with d show "\<exists>st'. delete_bus st inp = Some (st', inp', ms @ [BusDeleted (used st - 1)]) \<and>
             used st' = used st - 1 \<and> length (slots st') = length (slots st) \<and>
             buses st' = takeWhile ?P (buses st) @ tl (dropWhile ?P (buses st))"
      by (intro exI [of _ ?st']) (simp add: shift_left_length)
  qed
  from none some show ?thesis by blast
qed


lemma two_bus_fleet_numbers: "map bus_no (buses two_bus_fleet) = [7, 8]"
  by (simp add: buses_def two_bus_fleet_def second_bus_def scenario_bus_def)

lemma read_number_9: "read_int_strict 1 9999999 ''9\<newline>'' = Some (9, [], [])"
  by code_simp

lemma read_number_7: "read_int_strict 1 9999999 ''7\<newline>'' = Some (7, [], [])"
  by code_simp

theorem delete_bus_removes_first_witness:
  "used two_bus_fleet \<le> length (slots two_bus_fleet) \<and>
   map bus_no (buses two_bus_fleet) = [7, 8] \<and>
   read_int_strict 1 9999999 ''9\<newline>'' = Some (9, [], []) \<and>
   delete_bus two_bus_fleet ''9\<newline>'' = Some (two_bus_fleet, [], [BusNotFound]) \<and>
   read_int_strict 1 9999999 ''7\<newline>'' = Some (7, [], []) \<and>
   (\<exists>st'. delete_bus two_bus_fleet ''7\<newline>'' = Some (st', [], [BusDeleted 1]) \<and>
          buses st' = [second_bus])"
proof -
  have inv: "used two_bus_fleet \<le> length (slots two_bus_fleet)"
    by (simp add: two_bus_fleet_def)
  have bs: "buses two_bus_fleet = [scenario_bus, second_bus]"
    by (simp add: buses_def two_bus_fleet_def)
  have nos: "bus_no scenario_bus = 7" "bus_no second_bus = 8"
    by (simp_all add: second_bus_def scenario_bus_def)
  have u: "used two_bus_fleet - 1 = 1"
    by (simp add: two_bus_fleet_def)
  from delete_bus_removes_first [OF inv read_number_9] bs nos
  have a: "delete_bus two_bus_fleet ''9\<newline>'' = Some (two_bus_fleet, [], [BusNotFound])"
    by simp
  from delete_bus_removes_first [OF inv read_number_7] bs nos u
  have b: "\<exists>st'. delete_bus two_bus_fleet ''7\<newline>'' = Some (st', [], [BusDeleted 1]) \<and>
                buses st' = [second_bus]"
    by auto
  from inv two_bus_fleet_numbers read_number_9 a read_number_7 b show ?thesis
    by blast
qed

lemma tolower_toupper: "tolower (toupper c) = tolower c"
  by (auto simp: tolower_def toupper_def)

lemma str_ieq_iff: "str_ieq a b \<longleftrightarrow> map tolower a = map tolower b"
  by (induction a b rule: str_ieq.induct) auto

lemma str_ieq_to_upper: "str_ieq a (to_upper_str b) \<longleftrightarrow> map tolower a = map tolower b"
proof -
  have "tolower \<circ> toupper = tolower"
    by (rule ext) (simp add: tolower_toupper)
  then show ?thesis
    by (simp add: str_ieq_iff to_upper_str_def)
qed

lemma bus_code_exists_from_iff:
  "bus_code_exists_from fleet count code (- 1) i \<longleftrightarrow>
     (\<exists>j. i \<le> j \<and> j < count \<and> str_ieq (bus_code (fleet ! j)) code)"
proof (induction fleet count code "- 1 :: int" i rule: bus_code_exists_from.induct)
  case (1 fleet count code i)
  show ?case
  proof (cases "i < count")
    case True
    show ?thesis
    proof (cases "str_ieq (bus_code (fleet ! i)) code")
      case t: True
      with True show ?thesis
        by (subst bus_code_exists_from.simps) auto
    next
      case f: False
      have "(\<exists>j. i \<le> j \<and> j < count \<and> str_ieq (bus_code (fleet ! j)) code) \<longleftrightarrow>
            (\<exists>j. i + 1 \<le> j \<and> j < count \<and> str_ieq (bus_code (fleet ! j)) code)"
        using f by (metis Suc_eq_plus1 Suc_leI le_neq_implies_less Suc_leD)
      with "1.hyps"(2) [OF True _ f] True f show ?thesis
        by (subst bus_code_exists_from.simps) simp
    qed
  next
    case False
    then show ?thesis
      by (subst bus_code_exists_from.simps) auto
  qed
qed

lemma bus_no_exists_from_iff:
  "bus_no_exists_from fleet count no (- 1) i \<longleftrightarrow>
     (\<exists>j. i \<le> j \<and> j < count \<and> bus_no (fleet ! j) = no)"
proof (induction fleet count no "- 1 :: int" i rule: bus_no_exists_from.induct)
  case (1 fleet count no i)
  show ?case
  proof (cases "i < count")
    case True
    show ?thesis
    proof (cases "bus_no (fleet ! i) = no")
      case t: True
      with True show ?thesis
        by (subst bus_no_exists_from.simps) auto
    next
      case f: False
      have "(\<exists>j. i \<le> j \<and> j < count \<and> bus_no (fleet ! j) = no) \<longleftrightarrow>
            (\<exists>j. i + 1 \<le> j \<and> j < count \<and> bus_no (fleet ! j) = no)"
        using f by (metis Suc_eq_plus1 Suc_leI le_neq_implies_less Suc_leD)
      with "1.hyps"(2) [OF True _ f] True f show ?thesis
        by (subst bus_no_exists_from.simps) simp
    qed
  next
    case False
    then show ?thesis
      by (subst bus_no_exists_from.simps) auto
  qed
qed

lemma set_take_nth:
  assumes "count \<le> length xs"
  shows "(\<exists>b \<in> set (take count xs). P b) \<longleftrightarrow> (\<exists>j < count. P (xs ! j))"
proof
  assume "\<exists>b \<in> set (take count xs). P b"
  then obtain j where "j < length (take count xs)" "P (take count xs ! j)"
    by (auto simp: in_set_conv_nth)
  then show "\<exists>j < count. P (xs ! j)"
    by (intro exI [of _ j]) simp
next
  note c = assms
  assume "\<exists>j < count. P (xs ! j)"
  then obtain j where j: "j < count" "P (xs ! j)"
    by auto
  with c have "take count xs ! j \<in> set (take count xs)"
    by (intro nth_mem) simp
  with j show "\<exists>b \<in> set (take count xs). P b"
    by auto
qed

lemma bus_code_exists_iff:
  "count \<le> length fleet \<Longrightarrow>
   bus_code_exists fleet count (to_upper_str tmp) (- 1) \<longleftrightarrow>
     (\<exists>b \<in> set (take count fleet). map tolower (bus_code b) = map tolower tmp)"
  by (simp add: bus_code_exists_def bus_code_exists_from_iff str_ieq_to_upper set_take_nth)

lemma bus_no_exists_iff:
  "count \<le> length fleet \<Longrightarrow>
   bus_no_exists fleet count no (- 1) \<longleftrightarrow> (\<exists>b \<in> set (take count fleet). bus_no b = no)"
  by (simp add: bus_no_exists_def bus_no_exists_from_iff set_take_nth)


lemma say_case:
  "(case say m r of None \<Rightarrow> None | Some (c, i, m1) \<Rightarrow> f c i m1) =
   (case r of None \<Rightarrow> None | Some (c, i, m1) \<Rightarrow> f c i (m # m1))"
  by (cases r) (auto simp: say_def)

lemma buses_grow: "used st \<le> length (slots st) \<Longrightarrow> buses (grow uninit st) = buses st"
  by (simp add: buses_def grow_def Let_def)

lemma add_bus_code_duplicate:
  assumes "count \<le> length fleet"
    and "read_line_stdin 64 inp = (True, tmp, inp1)" and "tmp \<noteq> []"
    and "\<exists>b \<in> set (take count fleet). map tolower (bus_code b) = map tolower tmp"
  shows "add_bus_code fleet count inp = say DuplicateCode (add_bus_code fleet count inp1)"
  using assms by (subst add_bus_code.simps) (simp add: bus_code_exists_iff)

lemma add_bus_code_fresh:
  assumes "count \<le> length fleet"
    and "read_line_stdin 64 inp = (True, tmp, inp1)" and "tmp \<noteq> []"
    and "\<forall>b \<in> set (take count fleet). map tolower (bus_code b) \<noteq> map tolower tmp"
  shows "add_bus_code fleet count inp = Some (strncpy (to_upper_str tmp) 19, inp1, [])"
  using assms by (subst add_bus_code.simps) (simp add: bus_code_exists_iff)

lemma add_bus_no_duplicate:
  assumes "count \<le> length fleet"
    and "read_int_strict 1 9999999 inp = Some (no, inp1, ms)"
    and "\<exists>b \<in> set (take count fleet). bus_no b = no"
  shows "add_bus_no fleet count inp =
         map_option (\<lambda>(v, i, ms'). (v, i, ms @ DuplicateNumber # ms'))
           (add_bus_no fleet count inp1)"
  using assms by (subst add_bus_no.simps) (simp add: bus_no_exists_iff)

lemma add_bus_no_fresh:
  assumes "count \<le> length fleet"
    and "read_int_strict 1 9999999 inp = Some (no, inp1, ms)"
    and "\<forall>b \<in> set (take count fleet). bus_no b \<noteq> no"
  shows "add_bus_no fleet count inp = Some (no, inp1, ms)"
  using assms by (subst add_bus_no.simps) (simp add: bus_no_exists_iff)

lemma add_bus_fields_duplicate:
  assumes "used st \<le> length (slots st)"
    and "read_line_stdin 64 inp = (True, tmp, inp1)" and "tmp \<noteq> []"
    and "\<exists>b \<in> set (buses st). map tolower (bus_code b) = map tolower tmp"
  shows "add_bus_fields st inp = say DuplicateCode (add_bus_fields st inp1)"
proof -
  from assms have "add_bus_code (slots st) (used st) inp =
      say DuplicateCode (add_bus_code (slots st) (used st) inp1)"
    by (intro add_bus_code_duplicate) (simp_all add: buses_def)
  then show ?thesis
    by (auto simp: add_bus_fields_def say_def split: option.splits)
qed

lemma details_code: "add_bus_details b0 inp = Some (b, inp', ms) \<Longrightarrow> bus_code b = bus_code b0 \<and> bus_no b = bus_no b0"
  by (auto simp: add_bus_details_def split: option.splits)

lemma add_bus_fields_fresh:
  assumes "used st < length (slots st)"
    and "read_line_stdin 64 inp = (True, tmp, inp1)" and "tmp \<noteq> []"
    and "\<forall>b \<in> set (buses st). map tolower (bus_code b) \<noteq> map tolower tmp"
    and "read_int_strict 1 9999999 inp1 = Some (no, inp2, m2)"
    and "\<forall>b \<in> set (buses st). bus_no b \<noteq> no"
    and "add_bus_details ((slots st ! used st)\<lparr>bus_code := strncpy (to_upper_str tmp) 19,
                                               bus_no := no\<rparr>) inp2 = Some (b, inp3, m3)"
  shows "\<exists>st'. add_bus_fields st inp = Some (st', inp3, m2 @ m3 @ [BusAdded (used st + 1)]) \<and>
               buses st' = buses st @ [b] \<and> used st' = used st + 1 \<and>
               bus_code b = strncpy (to_upper_str tmp) 19 \<and> bus_no b = no"
proof -
  from assms have c: "add_bus_code (slots st) (used st) inp =
      Some (strncpy (to_upper_str tmp) 19, inp1, [])"
    by (intro add_bus_code_fresh) (simp_all add: buses_def)
  from assms have n: "add_bus_no (slots st) (used st) inp1 = Some (no, inp2, m2)"
    by (intro add_bus_no_fresh) (simp_all add: buses_def)
  let ?st' = "\<lparr>slots = (slots st)[used st := b], used = used st + 1\<rparr>"
  from c n assms(7)
  have "add_bus_fields st inp = Some (?st', inp3, m2 @ m3 @ [BusAdded (used st + 1)])"
    by (simp add: add_bus_fields_def)
  moreover from assms(1) have "buses ?st' = buses st @ [b]"
    by (simp add: buses_def take_Suc_conv_app_nth)
  moreover from details_code [OF assms(7)]
  have "bus_code b = strncpy (to_upper_str tmp) 19 \<and> bus_no b = no"
    by simp
  ultimately show ?thesis by auto
qed


lemma used_grow: "used (grow uninit st) = used st"
  by (simp add: grow_def Let_def)

lemma length_grow: "length (slots st) < length (slots (grow uninit st))"
  by (simp add: grow_def Let_def)

lemma slot_grow: "length (slots st) = used st \<Longrightarrow> slots (grow uninit st) ! used st = uninit"
  by (simp add: grow_def Let_def nth_append)

lemma add_bus_no_result:
  "add_bus_no fleet count inp = Some (no, inp', ms) \<Longrightarrow> count \<le> length fleet \<Longrightarrow>
   \<forall>x \<in> set (take count fleet). bus_no x \<noteq> no"
proof (induction "length inp" arbitrary: inp ms rule: less_induct)
  case less
  note p = less.prems(1) [unfolded add_bus_no.simps [of fleet count inp]]
  from p obtain no0 inp0 ms0 where r: "read_int_strict 1 9999999 inp = Some (no0, inp0, ms0)"
    by (cases "read_int_strict 1 9999999 inp") auto
  then have short: "length inp0 < length inp"
    by (rule read_int_strict_shorter)
  show ?case
  proof (cases "bus_no_exists fleet count no0 (- 1)")
    case True
    with p r obtain ms' where "add_bus_no fleet count inp0 = Some (no, inp', ms')"
      by (cases "add_bus_no fleet count inp0") auto
    from less.hyps [OF short this less.prems(2)] show ?thesis .
  next
    case False
    with p r have "no = no0" by simp
    with False less.prems(2) show ?thesis
      by (simp add: bus_no_exists_iff)
  qed
qed

lemma add_bus_fields_number_duplicate:
  assumes "used st \<le> length (slots st)"
    and "read_line_stdin 64 inp = (True, tmp, inp1)" and "tmp \<noteq> []"
    and "\<forall>b \<in> set (buses st). map tolower (bus_code b) \<noteq> map tolower tmp"
    and "read_int_strict 1 9999999 inp1 = Some (no, inp2, ms)"
    and "\<exists>b \<in> set (buses st). bus_no b = no"
    and "read_line_stdin 64 inp' = (True, tmp, inp2)"
  shows "add_bus_fields st inp =
         map_option (\<lambda>(st', i, ms'). (st', i, ms @ DuplicateNumber # ms'))
           (add_bus_fields st inp')"
proof -
  from assms have c: "add_bus_code (slots st) (used st) inp =
      Some (strncpy (to_upper_str tmp) 19, inp1, [])"
    by (intro add_bus_code_fresh) (simp_all add: buses_def)
  from assms have c': "add_bus_code (slots st) (used st) inp' =
      Some (strncpy (to_upper_str tmp) 19, inp2, [])"
    by (intro add_bus_code_fresh) (simp_all add: buses_def)
  from assms have n: "add_bus_no (slots st) (used st) inp1 =
      map_option (\<lambda>(v, i, ms'). (v, i, ms @ DuplicateNumber # ms'))
        (add_bus_no (slots st) (used st) inp2)"
    by (intro add_bus_no_duplicate) (simp_all add: buses_def)
  show ?thesis
    by (simp add: add_bus_fields_def c c' n split: option.splits)
qed

lemma add_bus_fields_result:
  assumes "used st < length (slots st)"
    and "add_bus_fields st inp = Some (st', inp_end, msgs)"
  shows "\<exists>b. buses st' = buses st @ [b] \<and> used st' = used st + 1 \<and>
             (\<forall>x \<in> set (buses st). bus_no x \<noteq> bus_no b)"
proof -
  from assms(2) obtain code inp1 m1 where
    c: "add_bus_code (slots st) (used st) inp = Some (code, inp1, m1)"
    by (cases "add_bus_code (slots st) (used st) inp") (auto simp: add_bus_fields_def)
  from assms(2) c obtain no inp2 m2 where
    n: "add_bus_no (slots st) (used st) inp1 = Some (no, inp2, m2)"
    by (cases "add_bus_no (slots st) (used st) inp1") (auto simp: add_bus_fields_def)
  from assms(2) c n obtain b inp3 m3 where
    d: "add_bus_details ((slots st ! used st)\<lparr>bus_code := code, bus_no := no\<rparr>) inp2
        = Some (b, inp3, m3)"
    by (cases "add_bus_details ((slots st ! used st)\<lparr>bus_code := code, bus_no := no\<rparr>) inp2")
       (auto simp: add_bus_fields_def)
  from assms(2) c n d have st': "st' = \<lparr>slots = (slots st)[used st := b], used = used st + 1\<rparr>"
    by (simp add: add_bus_fields_def)
  from assms(1) have "buses st' = buses st @ [b]"
    by (simp add: st' buses_def take_Suc_conv_app_nth)
  moreover from details_code [OF d] have "bus_no b = no" by simp
  moreover from add_bus_no_result [OF n] assms(1)
  have "\<forall>x \<in> set (buses st). bus_no x \<noteq> no"
    by (simp add: buses_def)
  ultimately show ?thesis by (auto simp: st')
qed


text \<open>
  C6. In \<^verbatim>\<open>add_bus\<close>, with room in the array or a successful \<^verbatim>\<open>realloc\<close> (\<open>st1\<close> is the
  fleet after the capacity check, with the same buses):

  \<^item> a submitted code that is a case-variant of a code of the fleet is rejected with the
    duplicate-code message, and the call goes on, from the same fleet, with the rest of the
    input;
  \<^item> a submitted number that a bus of the fleet has is rejected with the duplicate-number
    message and has no other effect: the call does what it does on the input without that
    line (\<open>inp'\<close>: the same code line, then what follows the rejected number), from the same
    fleet;
  \<^item> when neither the code, compared case-insensitively, nor the number is in the fleet,
    both are accepted, and with the remaining fields read the call returns the fleet with
    the new record appended;
  \<^item> whenever the call returns, the fleet it returns is the old one with one record
    appended, whose number no bus of the old fleet has.
\<close>

theorem add_bus_uniqueness:
  assumes "used st \<le> length (slots st)" and "used st < length (slots st) \<or> alloc_ok"
  shows
    "let st1 = (if length (slots st) \<le> used st then grow uninit st else st) in
     (read_line_stdin 64 inp = (True, tmp, inp1) \<and> tmp \<noteq> [] \<and>
        (\<exists>b \<in> set (buses st). map tolower (bus_code b) = map tolower tmp)
      \<longrightarrow> add_bus alloc_ok uninit st inp = say DuplicateCode (add_bus alloc_ok uninit st inp1)) \<and>
     (read_line_stdin 64 inp = (True, tmp, inp1) \<and> tmp \<noteq> [] \<and>
        (\<forall>b \<in> set (buses st). map tolower (bus_code b) \<noteq> map tolower tmp) \<and>
        read_int_strict 1 9999999 inp1 = Some (no, inp2, m2) \<and>
        (\<exists>b \<in> set (buses st). bus_no b = no) \<and>
        read_line_stdin 64 inp' = (True, tmp, inp2)
      \<longrightarrow> add_bus alloc_ok uninit st inp =
            map_option (\<lambda>(st', i, ms'). (st', i, m2 @ DuplicateNumber # ms'))
              (add_bus alloc_ok uninit st inp')) \<and>
     (read_line_stdin 64 inp = (True, tmp, inp1) \<and> tmp \<noteq> [] \<and>
        (\<forall>b \<in> set (buses st). map tolower (bus_code b) \<noteq> map tolower tmp) \<and>
        read_int_strict 1 9999999 inp1 = Some (no, inp2, m2) \<and>
        (\<forall>b \<in> set (buses st). bus_no b \<noteq> no) \<and>
        add_bus_details ((slots st1 ! used st1)\<lparr>bus_code := strncpy (to_upper_str tmp) 19,
                                                 bus_no := no\<rparr>) inp2 = Some (b, inp3, m3)
      \<longrightarrow> (\<exists>st'. add_bus alloc_ok uninit st inp
                    = Some (st', inp3, m2 @ m3 @ [BusAdded (used st + 1)]) \<and>
                 buses st' = buses st @ [b] \<and> used st' = used st + 1 \<and>
                 bus_code b = strncpy (to_upper_str tmp) 19 \<and> bus_no b = no)) \<and>
     (add_bus alloc_ok uninit st inp = Some (st2, inp_end, msgs)
      \<longrightarrow> (\<exists>b2. buses st2 = buses st @ [b2] \<and> used st2 = used st + 1 \<and>
                 (\<forall>x \<in> set (buses st). bus_no x \<noteq> bus_no b2)))"
proof -
  define st1 where "st1 = (if length (slots st) \<le> used st then grow uninit st else st)"
  have u: "used st1 = used st"
    by (simp add: st1_def used_grow)
  have lt: "used st1 < length (slots st1)"
    using assms(1) length_grow [of st uninit] by (auto simp: st1_def used_grow)
  have bs: "buses st1 = buses st"
    using assms(1) by (simp add: st1_def buses_grow)
  have ab: "add_bus alloc_ok uninit st i = add_bus_fields st1 i" for i
    using assms by (auto simp: add_bus_def st1_def)
  have p1: "read_line_stdin 64 inp = (True, tmp, inp1) \<and> tmp \<noteq> [] \<and>
        (\<exists>b \<in> set (buses st). map tolower (bus_code b) = map tolower tmp)
      \<longrightarrow> add_bus alloc_ok uninit st inp = say DuplicateCode (add_bus alloc_ok uninit st inp1)"
    using add_bus_fields_duplicate [of st1 inp tmp inp1] lt bs by (simp add: ab)
  have p2: "read_line_stdin 64 inp = (True, tmp, inp1) \<and> tmp \<noteq> [] \<and>
        (\<forall>b \<in> set (buses st). map tolower (bus_code b) \<noteq> map tolower tmp) \<and>
        read_int_strict 1 9999999 inp1 = Some (no, inp2, m2) \<and>
        (\<exists>b \<in> set (buses st). bus_no b = no) \<and>
        read_line_stdin 64 inp' = (True, tmp, inp2)
      \<longrightarrow> add_bus alloc_ok uninit st inp =
            map_option (\<lambda>(st', i, ms'). (st', i, m2 @ DuplicateNumber # ms'))
              (add_bus alloc_ok uninit st inp')"
    using add_bus_fields_number_duplicate [of st1 inp tmp inp1 no inp2 m2 inp'] lt bs
    by (simp add: ab)
  have p3: "read_line_stdin 64 inp = (True, tmp, inp1) \<and> tmp \<noteq> [] \<and>
        (\<forall>b \<in> set (buses st). map tolower (bus_code b) \<noteq> map tolower tmp) \<and>
        read_int_strict 1 9999999 inp1 = Some (no, inp2, m2) \<and>
        (\<forall>b \<in> set (buses st). bus_no b \<noteq> no) \<and>
        add_bus_details ((slots st1 ! used st1)\<lparr>bus_code := strncpy (to_upper_str tmp) 19,
                                                 bus_no := no\<rparr>) inp2 = Some (b, inp3, m3)
      \<longrightarrow> (\<exists>st'. add_bus alloc_ok uninit st inp
                    = Some (st', inp3, m2 @ m3 @ [BusAdded (used st + 1)]) \<and>
                 buses st' = buses st @ [b] \<and> used st' = used st + 1 \<and>
                 bus_code b = strncpy (to_upper_str tmp) 19 \<and> bus_no b = no)"
    using add_bus_fields_fresh [of st1 inp tmp inp1 no inp2 m2 b inp3 m3] lt bs u
    by (simp add: ab)
  have p4: "add_bus alloc_ok uninit st inp = Some (st2, inp_end, msgs)
      \<longrightarrow> (\<exists>b2. buses st2 = buses st @ [b2] \<and> used st2 = used st + 1 \<and>
                 (\<forall>x \<in> set (buses st). bus_no x \<noteq> bus_no b2))"
    using add_bus_fields_result [of st1 inp st2 inp_end msgs] lt bs u
    by (simp add: ab)
  from p1 p2 p3 p4 show ?thesis
    unfolding Let_def st1_def [symmetric] by blast
qed

lemma read_duplicate_code: "read_line_stdin 64 (''chd-101a\<newline>'' @ fresh_input) = (True, ''chd-101a'', fresh_input)"
  by code_simp
lemma read_fresh_code: "read_line_stdin 64 fresh_input = (True, ''chd-103'', ''9\<newline>'' @ details_input)"
  by code_simp
lemma read_fresh_number: "read_int_strict 1 9999999 (''9\<newline>'' @ details_input) = Some (9, details_input, [])"
  by code_simp
lemma read_fresh_details: "add_bus_details (undated_bus\<lparr>bus_code := ''CHD-103'', bus_no := 9\<rparr>) details_input = Some (third_bus, [], [])"
  by code_simp
lemma two_bus_fleet_codes: "map (map tolower \<circ> bus_code) (buses two_bus_fleet) = [''chd-101a'', ''chd-102b'']"
  by code_simp
lemma fresh_code_facts: "map tolower ''chd-101a'' = ''chd-101a''" "map tolower ''chd-103'' = ''chd-103''"
  "strncpy (to_upper_str ''chd-103'') 19 = ''CHD-103''"
  by code_simp+

lemma read_code_then_duplicate:
  "read_line_stdin 64 duplicate_number_input
   = (True, ''chd-103'', ''7\<newline>9\<newline>'' @ details_input)"
  by code_simp

lemma read_duplicate_number_then_fresh:
  "read_int_strict 1 9999999 (''7\<newline>9\<newline>'' @ details_input)
   = Some (7, ''9\<newline>'' @ details_input, [])"
  by code_simp

theorem add_bus_uniqueness_witness:
  "used two_bus_fleet \<le> length (slots two_bus_fleet) \<and>
   map (map tolower \<circ> bus_code) (buses two_bus_fleet) = [''chd-101a'', ''chd-102b''] \<and>
   map bus_no (buses two_bus_fleet) = [7, 8] \<and>
   read_line_stdin 64 (''chd-101a\<newline>'' @ fresh_input) = (True, ''chd-101a'', fresh_input) \<and>
   add_bus True undated_bus two_bus_fleet (''chd-101a\<newline>'' @ fresh_input)
     = say DuplicateCode (add_bus True undated_bus two_bus_fleet fresh_input) \<and>
   read_line_stdin 64 duplicate_number_input
     = (True, ''chd-103'', ''7\<newline>9\<newline>'' @ details_input) \<and>
   read_int_strict 1 9999999 (''7\<newline>9\<newline>'' @ details_input)
     = Some (7, ''9\<newline>'' @ details_input, []) \<and>
   read_line_stdin 64 fresh_input = (True, ''chd-103'', ''9\<newline>'' @ details_input) \<and>
   (\<exists>st'. add_bus True undated_bus two_bus_fleet duplicate_number_input
            = Some (st', [], [DuplicateNumber, BusAdded 3]) \<and>
          buses st' = [scenario_bus, second_bus, third_bus]) \<and>
   (\<exists>st'. add_bus True undated_bus two_bus_fleet fresh_input = Some (st', [], [BusAdded 3]) \<and>
          buses st' = [scenario_bus, second_bus, third_bus] \<and>
          map bus_no (buses st') = [7, 8, 9])"
proof -
  have inv: "used two_bus_fleet \<le> length (slots two_bus_fleet)"
    "used two_bus_fleet < length (slots two_bus_fleet) \<or> True"
    by (simp_all add: two_bus_fleet_def)
  have bs: "buses two_bus_fleet = [scenario_bus, second_bus]"
    by (simp add: buses_def two_bus_fleet_def)
  have st1: "(if length (slots two_bus_fleet) \<le> used two_bus_fleet
              then grow undated_bus two_bus_fleet else two_bus_fleet) = two_bus_fleet"
    by (simp add: two_bus_fleet_def)
  have slot: "slots two_bus_fleet ! used two_bus_fleet = undated_bus" "used two_bus_fleet + 1 = 3"
    by (simp_all add: two_bus_fleet_def)
  have lows: "map tolower (bus_code scenario_bus) = ''chd-101a''"
    "map tolower (bus_code second_bus) = ''chd-102b''"
    using two_bus_fleet_codes by (simp_all add: bs)
  have nos: "bus_no scenario_bus = 7" "bus_no second_bus = 8" "bus_no third_bus = 9"
    by (simp_all add: second_bus_def scenario_bus_def third_bus_def)
  note t1 = add_bus_uniqueness [OF inv, where uninit = undated_bus
      and inp = "''chd-101a\<newline>'' @ fresh_input" and tmp = "''chd-101a''"
      and ?inp1.0 = fresh_input, unfolded Let_def st1, THEN conjunct1]
  from t1 read_duplicate_code bs lows fresh_code_facts
  have a: "add_bus True undated_bus two_bus_fleet (''chd-101a\<newline>'' @ fresh_input)
     = say DuplicateCode (add_bus True undated_bus two_bus_fleet fresh_input)"
    by simp
  note t3 = add_bus_uniqueness [OF inv, where uninit = undated_bus
      and inp = fresh_input and tmp = "''chd-103''"
      and ?inp1.0 = "''9\<newline>'' @ details_input" and no = 9
      and ?inp2.0 = details_input and ?m2.0 = "[]" and b = third_bus
      and ?inp3.0 = "[]" and ?m3.0 = "[]", unfolded Let_def st1,
      THEN conjunct2, THEN conjunct2, THEN conjunct1]
  from t3 read_fresh_code read_fresh_number read_fresh_details bs lows nos fresh_code_facts slot
  obtain st' where c: "add_bus True undated_bus two_bus_fleet fresh_input = Some (st', [], [BusAdded 3])"
      "buses st' = [scenario_bus, second_bus, third_bus]"
    by auto
  note t2 = add_bus_uniqueness [OF inv, where uninit = undated_bus
      and inp = duplicate_number_input and tmp = "''chd-103''"
      and ?inp1.0 = "''7\<newline>9\<newline>'' @ details_input" and no = 7
      and ?inp2.0 = "''9\<newline>'' @ details_input" and ?m2.0 = "[]"
      and inp' = fresh_input, unfolded Let_def st1, THEN conjunct2, THEN conjunct1]
  from t2 read_code_then_duplicate read_duplicate_number_then_fresh read_fresh_code
    bs lows nos fresh_code_facts
  have "add_bus True undated_bus two_bus_fleet duplicate_number_input =
        map_option (\<lambda>(st', i, ms'). (st', i, [] @ DuplicateNumber # ms'))
          (add_bus True undated_bus two_bus_fleet fresh_input)"
    by simp
  with c have b: "\<exists>st'. add_bus True undated_bus two_bus_fleet duplicate_number_input
            = Some (st', [], [DuplicateNumber, BusAdded 3]) \<and>
          buses st' = [scenario_bus, second_bus, third_bus]"
    by simp
  note t4 = add_bus_uniqueness [OF inv, where uninit = undated_bus
      and inp = fresh_input and ?st2.0 = st' and inp_end = "[]" and msgs = "[BusAdded 3]",
      unfolded Let_def st1, THEN conjunct2, THEN conjunct2, THEN conjunct2]
  from t4 c nos have d: "\<exists>st'. add_bus True undated_bus two_bus_fleet fresh_input
            = Some (st', [], [BusAdded 3]) \<and>
          buses st' = [scenario_bus, second_bus, third_bus] \<and>
          map bus_no (buses st') = [7, 8, 9]"
    by auto
  from inv(1) two_bus_fleet_codes two_bus_fleet_numbers read_duplicate_code a
    read_code_then_duplicate read_duplicate_number_then_fresh read_fresh_code b d
  show ?thesis
    by blast
qed


subsection \<open>The data file\<close>

lemma load_records_step:
  assumes "i < n" and "scanf bus_format inp = (vs, inp')"
    and "store_all vs (fleet ! i, u) = (b, si)"
  shows "load_records u fleet i n inp =
         (let (fleet', ms) = load_records si (fleet[i := b\<lparr>status := si\<rparr>]) (i + 1) n inp'
          in (fleet', (if length vs \<noteq> 19 then [CorruptedLine] else []) @ ms))"
  using assms by (subst load_records.simps) (simp add: Let_def)

lemma load_records_done: "\<not> i < n \<Longrightarrow> load_records u fleet i n inp = (fleet, [])"
  by (subst load_records.simps) simp

lemma scan_header_2: "scanf [D_int, D_ws] corrupt_file = ([S_int 2], corrupt_body)"
  by code_simp

lemma scan_corrupt_1:
  "scanf bus_format corrupt_body = ([S_str ''CHD-101A'', S_str ''Asha Rao''], corrupt_rest)"
  by code_simp

lemma scan_corrupt_2:
  "scanf bus_format corrupt_rest =
   ([S_str ''seven'', S_str ''15'', S_int 1, S_int 2024, S_int 0, S_int 0, S_int 0, S_int 9200],
    corrupt_rest2)"
  by code_simp

lemma c_str_lits: "c_str ''CHD-101A'' = ''CHD-101A''" "c_str ''Asha Rao'' = ''Asha Rao''"
  "c_str ''seven'' = ''seven''" "c_str ''15'' = ''15''" "c_str ''Asha'' = ''Asha''"
  by code_simp+

lemma store_corrupt_1:
  "store_all [S_str ''CHD-101A'', S_str ''Asha Rao''] (b, si) =
   (b\<lparr>bus_code := ''CHD-101A'', driver_name := ''Asha Rao''\<rparr>, si)"
  by (simp add: store_all_def bus_targets_def c_str_lits)

lemma store_corrupt_2:
  "store_all [S_str ''seven'', S_str ''15'', S_int 1, S_int 2024, S_int 0, S_int 0, S_int 0, S_int 9200] (b, si) =
   (b\<lparr>bus_code := ''seven'', driver_name := ''15'', bus_no := 1,
      last_service := (last_service b)\<lparr>day := 2024, month := 0, year := 0\<rparr>,
      next_due := (next_due b)\<lparr>day := 0, month := 9200\<rparr>\<rparr>, si)"
  by (simp add: store_all_def bus_targets_def c_str_lits)

lemma save_two_bus_fleet:
  "save_fleet_to_file (slots two_bus_fleet) (used two_bus_fleet) True None =
   (Some two_bus_file, [FleetSaved])"
  by code_simp

lemma scan_header_two: "scanf [D_int, D_ws] two_bus_file = ([S_int 2], two_bus_body)"
  by code_simp


lemma scan_two_1:
  "scanf bus_format two_bus_body =
   ([S_str ''CHD-101A'', S_str ''Asha Rao'', S_int 7, S_int 15, S_int 1, S_int 2024,
     S_int 0, S_int 0, S_int 0, S_float (Finite 9200), S_float (Finite 9000),
     S_float (Finite 10000), S_int 0, S_int 3, S_int 0, S_float (Finite 0), S_int 100,
     S_float (Finite 120), S_float (Finite 4)], good_line)"
  by code_simp

lemma scan_two_2:
  "scanf bus_format good_line =
   ([S_str ''CHD-102B'', S_str ''Ravi Kumar'', S_int 8, S_int 15, S_int 1, S_int 2024,
     S_int 0, S_int 0, S_int 0, S_float (Finite 9200), S_float (Finite 9000),
     S_float (Finite 10000), S_int 0, S_int 3, S_int 0, S_float (Finite 0), S_int 100,
     S_float (Finite 120), S_float (Finite 4)], [])"
  by code_simp

lemma store_two_1:
  "store_all [S_str ''CHD-101A'', S_str ''Asha Rao'', S_int 7, S_int 15, S_int 1, S_int 2024,
     S_int 0, S_int 0, S_int 0, S_float (Finite 9200), S_float (Finite 9000),
     S_float (Finite 10000), S_int 0, S_int 3, S_int 0, S_float (Finite 0), S_int 100,
     S_float (Finite 120), S_float (Finite 4)] (junk_bus, 77) = (scenario_bus\<lparr>status := - 1\<rparr>, 0)"
  by code_simp

lemma store_two_2:
  "store_all [S_str ''CHD-102B'', S_str ''Ravi Kumar'', S_int 8, S_int 15, S_int 1, S_int 2024,
     S_int 0, S_int 0, S_int 0, S_float (Finite 9200), S_float (Finite 9000),
     S_float (Finite 10000), S_int 0, S_int 3, S_int 0, S_float (Finite 0), S_int 100,
     S_float (Finite 120), S_float (Finite 4)] (junk_bus, 0) = (second_bus\<lparr>status := - 1\<rparr>, 0)"
  by code_simp

lemma roundtrip_two_bus_fleet:
  "load_fleet_from_file True junk_bus 77 \<lparr>slots = [], used = 0\<rparr>
     (fst (save_fleet_to_file (slots two_bus_fleet) (used two_bus_fleet) True None)) =
   (\<lparr>slots = buses two_bus_fleet, used = 2\<rparr>, [FleetLoaded 2])"
proof -
  have st: "scenario_bus\<lparr>status := 0\<rparr> = scenario_bus" "second_bus\<lparr>status := 0\<rparr> = second_bus"
    by (simp_all add: scenario_bus_def second_bus_def STATUS_OK_def)
  have s2: "store_all [S_str ''CHD-102B'', S_str ''Ravi Kumar'', S_int 8, S_int 15, S_int 1,
     S_int 2024, S_int 0, S_int 0, S_int 0, S_float (Finite 9200), S_float (Finite 9000),
     S_float (Finite 10000), S_int 0, S_int 3, S_int 0, S_float (Finite 0), S_int 100,
     S_float (Finite 120), S_float (Finite 4)] ([scenario_bus, junk_bus] ! Suc 0, 0)
     = (second_bus\<lparr>status := - 1\<rparr>, 0)"
    by (simp add: store_two_2)
  have r1: "load_records 0 [scenario_bus, junk_bus] (Suc 0) 2 good_line
            = ([scenario_bus, second_bus], [])"
    using st
    by (subst load_records_step [OF _ scan_two_2 s2]) (simp_all add: load_records_done)
  have s1: "store_all [S_str ''CHD-101A'', S_str ''Asha Rao'', S_int 7, S_int 15, S_int 1,
     S_int 2024, S_int 0, S_int 0, S_int 0, S_float (Finite 9200), S_float (Finite 9000),
     S_float (Finite 10000), S_int 0, S_int 3, S_int 0, S_float (Finite 0), S_int 100,
     S_float (Finite 120), S_float (Finite 4)] ([junk_bus, junk_bus] ! 0, 77)
     = (scenario_bus\<lparr>status := - 1\<rparr>, 0)"
    by (simp add: store_two_1)
  have r0: "load_records 77 [junk_bus, junk_bus] 0 2 two_bus_body
            = ([scenario_bus, second_bus], [])"
    using st
    by (subst load_records_step [OF _ scan_two_1 s1]) (simp_all add: r1)
  have two: "nat (sint (2 :: cint)) = 2" "\<not> (2 :: cint) \<le>s 0"
    by (simp_all add: word_sle_eq)
  have rep: "replicate 2 junk_bus = [junk_bus, junk_bus]"
    by (simp add: numeral_2_eq_2)
  have bs: "buses two_bus_fleet = [scenario_bus, second_bus]"
    by (simp add: buses_def two_bus_fleet_def)
  show ?thesis
    by (simp add: save_two_bus_fleet load_fleet_from_file_def scan_header_two two r0 rep bs
        del: scanf.simps)
qed


text \<open>
  C2: what \<^verbatim>\<open>load_fleet_from_file\<close> does with \<open>corrupt_file\<close>. The scan of the first
  record stops at the word in the number field and the warning is printed, but slot 0 stays
  a bus of the fleet: it has the code and the driver name read so far, every other field
  is what the slot held before, and its status is the indeterminate \<^verbatim>\<open>status_int\<close>. The
  loader then resumes in the middle of the corrupt line and reads the rest of that line as
  the second bus (code "seven"), warns again, and reports two buses loaded; the
  well-formed second line is never read. So the corrupt line is not skipped, the record
  after it is not loaded, and the fleet holds records with unparsed fields.
\<close>

theorem load_corrupt_line:
  "load_fleet_from_file True uninit uninit_int \<lparr>slots = [], used = 0\<rparr> (Some corrupt_file) =
   (\<lparr>slots = [uninit\<lparr>bus_code := ''CHD-101A'', driver_name := ''Asha Rao'',
                     status := uninit_int\<rparr>,
              uninit\<lparr>bus_code := ''seven'', driver_name := ''15'', bus_no := 1,
                     last_service := (last_service uninit)\<lparr>day := 2024, month := 0, year := 0\<rparr>,
                     next_due := (next_due uninit)\<lparr>day := 0, month := 9200\<rparr>,
                     status := uninit_int\<rparr>],
     used = 2\<rparr>,
    [CorruptedLine, CorruptedLine, FleetLoaded 2])"
proof -
  let ?b1 = "uninit\<lparr>bus_code := ''CHD-101A'', driver_name := ''Asha Rao''\<rparr>"
  let ?b2 = "uninit\<lparr>bus_code := ''seven'', driver_name := ''15'', bus_no := 1,
      last_service := (last_service uninit)\<lparr>day := 2024, month := 0, year := 0\<rparr>,
      next_due := (next_due uninit)\<lparr>day := 0, month := 9200\<rparr>\<rparr>"
  have r1: "load_records uninit_int [?b1\<lparr>status := uninit_int\<rparr>, uninit] (Suc 0) 2 corrupt_rest
            = ([?b1\<lparr>status := uninit_int\<rparr>, ?b2\<lparr>status := uninit_int\<rparr>], [CorruptedLine])"
    by (subst load_records_step [OF _ scan_corrupt_2 store_corrupt_2])
       (simp_all add: load_records_done)
  have r0: "load_records uninit_int [uninit, uninit] 0 2 corrupt_body
            = ([?b1\<lparr>status := uninit_int\<rparr>, ?b2\<lparr>status := uninit_int\<rparr>],
               [CorruptedLine, CorruptedLine])"
    by (subst load_records_step [OF _ scan_corrupt_1 store_corrupt_1]) (simp_all add: r1)
  have two: "nat (sint (2 :: cint)) = 2" "\<not> (2 :: cint) \<le>s 0"
    by (simp_all add: word_sle_eq)
  have rep: "replicate 2 uninit = [uninit, uninit]"
    by (simp add: numeral_2_eq_2)
  show ?thesis
    by (simp add: load_fleet_from_file_def scan_header_2 two r0 rep del: scanf.simps)
qed


lemma piped_name_accepted:
  "read_driver_name 50 ''Asha|Rao\<newline>'' = Some (''Asha|Rao'', [], [])"
  by code_simp

lemma save_piped:
  "save_fleet_to_file [piped_bus] 1 True None = (Some piped_file, [FleetSaved])"
  by code_simp

lemma scan_header_piped: "scanf [D_int, D_ws] piped_file = ([S_int 1], piped_line)"
  by code_simp

lemma scan_piped:
  "scanf bus_format piped_line = ([S_str ''CHD-101A'', S_str ''Asha''], piped_rest)"
  by code_simp

lemma store_piped:
  "store_all [S_str ''CHD-101A'', S_str ''Asha''] (b, si) =
   (b\<lparr>bus_code := ''CHD-101A'', driver_name := ''Asha''\<rparr>, si)"
  by (simp add: store_all_def bus_targets_def c_str_lits)

text \<open>
  C8: a round trip that fails. The driver name "Asha|Rao" is a name that
  \<^verbatim>\<open>read_driver_name\<close> accepts; saving a fleet of the one bus \<open>piped_bus\<close> writes the
  name unescaped, and loading the saved file reads the driver name "Asha", fails on the
  next field, warns, and yields a fleet of one bus of which only the code is that of the
  bus saved: the driver name is cut at the separator and every other field is what the
  slot held before.
\<close>

theorem roundtrip_piped_name:
  "read_driver_name 50 ''Asha|Rao\<newline>'' = Some (driver_name piped_bus, [], []) \<and>
   save_fleet_to_file [piped_bus] 1 True None = (Some piped_file, [FleetSaved]) \<and>
   load_fleet_from_file True uninit uninit_int \<lparr>slots = [], used = 0\<rparr> (Some piped_file) =
     (\<lparr>slots = [uninit\<lparr>bus_code := ''CHD-101A'', driver_name := ''Asha'',
                       status := uninit_int\<rparr>],
       used = 1\<rparr>,
      [CorruptedLine, FleetLoaded 1])"
proof -
  have r0: "load_records uninit_int [uninit] 0 (Suc 0) piped_line
            = ([uninit\<lparr>bus_code := ''CHD-101A'', driver_name := ''Asha'',
                       status := uninit_int\<rparr>], [CorruptedLine])"
    by (subst load_records_step [OF _ scan_piped store_piped])
       (simp_all add: load_records_done)
  have one: "nat (sint (1 :: cint)) = 1" "\<not> (1 :: cint) \<le>s 0"
    by (simp_all add: word_sle_eq)
  have load: "load_fleet_from_file True uninit uninit_int \<lparr>slots = [], used = 0\<rparr> (Some piped_file) =
     (\<lparr>slots = [uninit\<lparr>bus_code := ''CHD-101A'', driver_name := ''Asha'',
                       status := uninit_int\<rparr>],
       used = 1\<rparr>,
      [CorruptedLine, FleetLoaded 1])"
    by (simp add: load_fleet_from_file_def scan_header_piped one r0 del: scanf.simps)
  have name: "driver_name piped_bus = ''Asha|Rao''"
    by (simp add: piped_bus_def)
  from piped_name_accepted save_piped load name show ?thesis
    by simp
qed


end
